theory Spec2Isabelle
  imports Complex_Main "HOL-Library.Word" "HOL-Library.Monad_Syntax"
begin

unbundle bit_operations_syntax

section \<open>Machine types\<close>

text \<open>
  \<open>GLuint\<close>, \<open>GLenum\<close> and \<open>uint32_t\<close> are 32-bit words; \<open>int\<close> and \<open>int32_t\<close> are
  32-bit words read as two's complement (\<open>sint\<close>).
\<close>

type_synonym u32 = "32 word"
type_synonym s32 = "32 word"

subsection \<open>Single-precision floats\<close>

text \<open>
  \<open>float\<close> is IEEE-754 binary32 with round-to-nearest-even.  A finite float is
  represented by its exact real value (the two zeros are identified: no operation of
  this program tells them apart once the result is converted to an integer).
  \<open>Infinity True\<close> is minus infinity.
\<close>

datatype float32 = Finite real | Infinity bool | NaN

definition round_half_even :: "real \<Rightarrow> int" where
  "round_half_even r =
     (let f = \<lfloor>r\<rfloor>; d = r - of_int f
      in if d < 1/2 then f else if 1/2 < d then f + 1 else if even f then f else f + 1)"

text \<open>
  The exponent \<open>e\<close> of the unit in the last place of a magnitude \<open>a\<close>: the least
  \<open>e\<close> from \<open>-149\<close> (subnormals) with \<open>a < 2 ^ (e + 24)\<close>, at most \<open>104\<close>
  (the largest binade).
\<close>

fun f32_quantum_search :: "nat \<Rightarrow> int \<Rightarrow> real \<Rightarrow> int" where
  "f32_quantum_search 0 e a = e"
| "f32_quantum_search (Suc n) e a =
     (if a < 2 powi (e + 24) then e else f32_quantum_search n (e + 1) a)"

definition f32_quantum_exp :: "real \<Rightarrow> int" where
  "f32_quantum_exp a = f32_quantum_search 253 (-149) a"

definition f32_round :: "real \<Rightarrow> float32" where
  "f32_round r =
     (let e = f32_quantum_exp \<bar>r\<bar>; m = round_half_even (r / 2 powi e)
      in if 2 ^ 24 \<le> \<bar>m\<bar> \<and> e = 104 then Infinity (r < 0)
         else Finite (of_int m * 2 powi e))"

text \<open>Conversion \<open>int \<rightarrow> float\<close>, as in \<open>box.x * scale\<close> or \<open>gg.x1 = geometry.x\<close>.\<close>

definition float_of_int :: "s32 \<Rightarrow> float32" where
  "float_of_int i = f32_round (of_int (sint i))"

fun f32_mul :: "float32 \<Rightarrow> float32 \<Rightarrow> float32" where
  "f32_mul (Finite a) (Finite b) = f32_round (a * b)"
| "f32_mul (Finite a) (Infinity s) = (if a = 0 then NaN else Infinity (s \<noteq> (a < 0)))"
| "f32_mul (Infinity s) (Finite b) = (if b = 0 then NaN else Infinity (s \<noteq> (b < 0)))"
| "f32_mul (Infinity s) (Infinity t) = Infinity (s \<noteq> t)"
| "f32_mul NaN _ = NaN"
| "f32_mul _ NaN = NaN"

fun f32_add :: "float32 \<Rightarrow> float32 \<Rightarrow> float32" where
  "f32_add (Finite a) (Finite b) = f32_round (a + b)"
| "f32_add (Finite a) (Infinity s) = Infinity s"
| "f32_add (Infinity s) (Finite b) = Infinity s"
| "f32_add (Infinity s) (Infinity t) = (if s = t then Infinity s else NaN)"
| "f32_add NaN _ = NaN"
| "f32_add _ NaN = NaN"

fun std_floor :: "float32 \<Rightarrow> float32" where
  "std_floor (Finite a) = Finite (of_int \<lfloor>a\<rfloor>)"
| "std_floor f = f"

fun std_ceil :: "float32 \<Rightarrow> float32" where
  "std_ceil (Finite a) = Finite (of_int \<lceil>a\<rceil>)"
| "std_ceil f = f"

text \<open>
  Conversion \<open>float \<rightarrow> int\<close> (the assignment \<open>box.x = std::floor(...)\<close>): the value is
  truncated towards zero; when the truncated value does not fit into \<open>int\<close>, or the
  float is an infinity or a NaN, the behaviour is undefined in C++, which is \<open>None\<close>
  here.
\<close>

fun int_of_float :: "float32 \<Rightarrow> s32 option" where
  "int_of_float (Finite a) =
     (let t = (if 0 \<le> a then \<lfloor>a\<rfloor> else \<lceil>a\<rceil>)
      in if - (2 ^ 31) \<le> t \<and> t < 2 ^ 31 then Some (word_of_int t) else None)"
| "int_of_float f = None"

section \<open>Boxes and render targets\<close>

text \<open>\<open>struct wlr_box { int x, y; int width, height; }\<close>; \<open>wf::geometry_t\<close> is the same type.\<close>

record wlr_box =
  x :: s32
  y :: s32
  width :: s32
  height :: s32

type_synonym geometry_t = wlr_box

record gl_geometry =
  x1 :: float32
  y1 :: float32
  x2 :: float32
  y2 :: float32

text \<open>\<open>glm::mat4\<close>: sixteen floats in column-major order; \<open>glm::vec4\<close>: four floats.\<close>

type_synonym mat4 = "float32 list"
type_synonym vec4 = "float32 \<times> float32 \<times> float32 \<times> float32"

definition mat4_identity :: mat4 where
  "mat4_identity =
     [Finite 1, Finite 0, Finite 0, Finite 0,
      Finite 0, Finite 1, Finite 0, Finite 0,
      Finite 0, Finite 0, Finite 1, Finite 0,
      Finite 0, Finite 0, Finite 0, Finite 1]"

record framebuffer_base_t =
  tex :: u32
  fb :: u32
  viewport_width :: s32
  viewport_height :: s32

record framebuffer_t = framebuffer_base_t +
  geometry :: geometry_t
  wl_transform :: u32
  scale :: float32
  has_nonstandard_transform :: bool
  transform :: mat4

definition WL_OUTPUT_TRANSFORM_NORMAL :: u32 where "WL_OUTPUT_TRANSFORM_NORMAL = 0"
definition WL_OUTPUT_TRANSFORM_90 :: u32 where "WL_OUTPUT_TRANSFORM_90 = 1"
definition WL_OUTPUT_TRANSFORM_180 :: u32 where "WL_OUTPUT_TRANSFORM_180 = 2"
definition WL_OUTPUT_TRANSFORM_270 :: u32 where "WL_OUTPUT_TRANSFORM_270 = 3"
definition WL_OUTPUT_TRANSFORM_FLIPPED :: u32 where "WL_OUTPUT_TRANSFORM_FLIPPED = 4"
definition WL_OUTPUT_TRANSFORM_FLIPPED_90 :: u32 where "WL_OUTPUT_TRANSFORM_FLIPPED_90 = 5"
definition WL_OUTPUT_TRANSFORM_FLIPPED_180 :: u32 where "WL_OUTPUT_TRANSFORM_FLIPPED_180 = 6"
definition WL_OUTPUT_TRANSFORM_FLIPPED_270 :: u32 where "WL_OUTPUT_TRANSFORM_FLIPPED_270 = 7"

text \<open>
  Modelled from the spec: \<open>wlr_output_transform_invert\<close> and \<open>wlr_box_transform\<close> belong
  to wlroots and are not under \<open>src/\<close>.  The spec describes the damage-to-framebuffer
  step as applying "the inverse of the configured rotation/flip"; the two definitions
  follow wlroots 0.10 (\<open>types/wlr_output.c\<close>, \<open>types/wlr_box.c\<close>).  A transform value
  outside the enumeration leaves the origin of \<open>dest\<close> as it was.
\<close>

definition wlr_output_transform_invert :: "u32 \<Rightarrow> u32" where
  "wlr_output_transform_invert tr =
     (if tr AND WL_OUTPUT_TRANSFORM_90 \<noteq> 0 \<and> tr AND WL_OUTPUT_TRANSFORM_FLIPPED = 0
      then tr XOR WL_OUTPUT_TRANSFORM_180 else tr)"

definition wlr_box_transform :: "wlr_box \<Rightarrow> wlr_box \<Rightarrow> u32 \<Rightarrow> s32 \<Rightarrow> s32 \<Rightarrow> wlr_box" where
  "wlr_box_transform dest src tr w h =
     (let d = (if tr AND 1 = 0 then dest\<lparr>width := width src, height := height src\<rparr>
               else dest\<lparr>width := height src, height := width src\<rparr>)
      in if tr = WL_OUTPUT_TRANSFORM_NORMAL then d\<lparr>x := x src, y := y src\<rparr>
         else if tr = WL_OUTPUT_TRANSFORM_90 then
           d\<lparr>x := y src, y := w - x src - width src\<rparr>
         else if tr = WL_OUTPUT_TRANSFORM_180 then
           d\<lparr>x := w - x src - width src, y := h - y src - height src\<rparr>
         else if tr = WL_OUTPUT_TRANSFORM_270 then
           d\<lparr>x := h - y src - height src, y := x src\<rparr>
         else if tr = WL_OUTPUT_TRANSFORM_FLIPPED then
           d\<lparr>x := w - x src - width src, y := y src\<rparr>
         else if tr = WL_OUTPUT_TRANSFORM_FLIPPED_90 then
           d\<lparr>x := h - y src - height src, y := w - x src - width src\<rparr>
         else if tr = WL_OUTPUT_TRANSFORM_FLIPPED_180 then
           d\<lparr>x := x src, y := h - y src - height src\<rparr>
         else if tr = WL_OUTPUT_TRANSFORM_FLIPPED_270 then
           d\<lparr>x := y src, y := x src\<rparr>
         else d)"

subsection \<open>Coordinate conversions of \<open>wf::framebuffer_t\<close>\<close>

text \<open>A line written by \<open>LOGE\<close>.\<close>

datatype log_line = LOGE string

text \<open>
  \<open>framebuffer_box_from_damage_box\<close> returns its box together with the lines it logged.
\<close>

definition framebuffer_box_from_damage_box ::
    "framebuffer_t \<Rightarrow> wlr_box \<Rightarrow> log_line list \<times> wlr_box" where
  "framebuffer_box_from_damage_box fbuf box =
     (if has_nonstandard_transform fbuf then
        ([LOGE (''unimplemented reached: framebuffer_box_from_geometry_box'' @
                '' with has_nonstandard_transform'')],
         \<lparr>x = 0, y = 0, width = 0, height = 0\<rparr>)
      else
        let (w, h) = (if wl_transform fbuf AND 1 \<noteq> 0
                      then (viewport_height fbuf, viewport_width fbuf)
                      else (viewport_width fbuf, viewport_height fbuf));
            result = box;
            tr = wlr_output_transform_invert (wl_transform fbuf)
        in ([], wlr_box_transform result box tr w h))"

text \<open>
  \<open>damage_box_from_geometry_box\<close>: the four assignments in source order; \<open>None\<close> when
  one of the conversions back to \<open>int\<close> is undefined.
\<close>

definition damage_box_from_geometry_box :: "framebuffer_t \<Rightarrow> wlr_box \<Rightarrow> wlr_box option" where
  "damage_box_from_geometry_box fbuf box = do {
     bx \<leftarrow> int_of_float (std_floor (f32_mul (float_of_int (x box)) (scale fbuf)));
     byy \<leftarrow> int_of_float (std_floor (f32_mul (float_of_int (y box)) (scale fbuf)));
     bw \<leftarrow> int_of_float (std_ceil (f32_mul (float_of_int (width box)) (scale fbuf)));
     bh \<leftarrow> int_of_float (std_ceil (f32_mul (float_of_int (height box)) (scale fbuf)));
     Some (box\<lparr>x := bx, y := byy, width := bw, height := bh\<rparr>)
   }"

definition framebuffer_box_from_geometry_box ::
    "framebuffer_t \<Rightarrow> wlr_box \<Rightarrow> (log_line list \<times> wlr_box) option" where
  "framebuffer_box_from_geometry_box fbuf box =
     map_option (framebuffer_box_from_damage_box fbuf) (damage_box_from_geometry_box fbuf box)"

section \<open>OpenGL calls\<close>

text \<open>
  The constants of \<open>GLES3/gl3.h\<close> that the code names.
\<close>

definition GL_FALSE :: u32 where "GL_FALSE = 0"
definition GL_ONE :: u32 where "GL_ONE = 1"
definition GL_TRIANGLE_FAN :: u32 where "GL_TRIANGLE_FAN = 0x0006"
definition GL_ONE_MINUS_SRC_ALPHA :: u32 where "GL_ONE_MINUS_SRC_ALPHA = 0x0303"
definition GL_BLEND :: u32 where "GL_BLEND = 0x0BE2"
definition GL_TEXTURE_2D :: u32 where "GL_TEXTURE_2D = 0x0DE1"
definition GL_UNSIGNED_BYTE :: u32 where "GL_UNSIGNED_BYTE = 0x1401"
definition GL_FLOAT :: u32 where "GL_FLOAT = 0x1406"
definition GL_RGBA :: u32 where "GL_RGBA = 0x1908"
definition GL_LINEAR :: u32 where "GL_LINEAR = 0x2601"
definition GL_TEXTURE_MAG_FILTER :: u32 where "GL_TEXTURE_MAG_FILTER = 0x2800"
definition GL_TEXTURE_MIN_FILTER :: u32 where "GL_TEXTURE_MIN_FILTER = 0x2801"
definition GL_TEXTURE_WRAP_S :: u32 where "GL_TEXTURE_WRAP_S = 0x2802"
definition GL_TEXTURE_WRAP_T :: u32 where "GL_TEXTURE_WRAP_T = 0x2803"
definition GL_CLAMP_TO_EDGE :: u32 where "GL_CLAMP_TO_EDGE = 0x812F"
definition GL_TEXTURE0 :: u32 where "GL_TEXTURE0 = 0x84C0"
definition GL_FRAMEBUFFER_COMPLETE :: u32 where "GL_FRAMEBUFFER_COMPLETE = 0x8CD5"
definition GL_COLOR_ATTACHMENT0 :: u32 where "GL_COLOR_ATTACHMENT0 = 0x8CE0"
definition GL_FRAMEBUFFER :: u32 where "GL_FRAMEBUFFER = 0x8D40"

text \<open>
  The effect of the code on the GPU is the sequence of OpenGL calls it issues, with their
  arguments.  A pointer argument is represented by the array it points to.  The error
  polling that the macro \<open>GL_CALL\<close> adds after every call only writes to the log and is
  left out.
\<close>

datatype gl_call =
    GlUseProgram u32
  | GlDeleteProgram u32
  | GlGetUniformLocation u32 string
  | GlGetAttribLocation u32 string
  | GlUniform1i int int
  | GlUniform1f int float32
  | GlUniform2f int float32 float32
  | GlUniform4f int float32 float32 float32 float32
  | GlUniformMatrix4fv int int u32 mat4
  | GlEnableVertexAttribArray int
  | GlVertexAttribPointer int int u32 u32 int "float32 list"
  | GlVertexAttribDivisor int int
  | GlDisableVertexAttribArray int
  | GlActiveTexture u32
  | GlBindTexture u32 u32
  | GlTexParameteri u32 u32 u32
  | GlTexImage2D u32 int u32 s32 s32 int u32 u32
  | GlEnable u32
  | GlBlendFunc u32 u32
  | GlDrawArrays u32 int int
  | GlGenFramebuffers int
  | GlGenTextures int
  | GlBindFramebuffer u32 u32
  | GlFramebufferTexture2D u32 u32 u32 u32 int
  | GlCheckFramebufferStatus u32

text \<open>
  What the OpenGL driver answers is a parameter of the model: the locations it reports
  for the names of a program, the names that \<open>glGenFramebuffers\<close> and \<open>glGenTextures\<close>
  store into their argument, and the status \<open>glCheckFramebufferStatus\<close> returns.
\<close>

record gl_driver =
  glGetUniformLocation :: "u32 \<Rightarrow> string \<Rightarrow> int"
  glGetAttribLocation :: "u32 \<Rightarrow> string \<Rightarrow> int"
  glGenFramebuffers :: u32
  glGenTextures :: u32
  glCheckFramebufferStatus :: u32

text \<open>A statement that updates a state and issues calls; a block runs them in order.\<close>

type_synonym 's gl_action = "'s \<Rightarrow> 's \<times> gl_call list"

fun run_actions :: "'s gl_action list \<Rightarrow> 's gl_action" where
  "run_actions [] s = (s, [])"
| "run_actions (a # as) s =
     (let (s1, c1) = a s; (s2, c2) = run_actions as s1 in (s2, c1 @ c2))"

definition gl_calls :: "gl_call list \<Rightarrow> 's gl_action" where
  "gl_calls cs s = (s, cs)"

section \<open>Render target (base): \<open>wf::framebuffer_base_t\<close>\<close>

text \<open>The state of a default-constructed target, and of one after \<open>reset()\<close>.\<close>

definition framebuffer_base_t_new :: framebuffer_base_t where
  "framebuffer_base_t_new = \<lparr>tex = -1, fb = -1, viewport_width = 0, viewport_height = 0\<rparr>"

definition reset :: "'a framebuffer_base_t_scheme \<Rightarrow> 'a framebuffer_base_t_scheme" where
  "reset t = t\<lparr>fb := -1, tex := -1, viewport_width := 0, viewport_height := 0\<rparr>"

text \<open>
  \<open>allocate\<close> returns its result, the target as the call leaves it, the OpenGL calls
  issued and the lines logged.
\<close>

definition allocate ::
    "gl_driver \<Rightarrow> s32 \<Rightarrow> s32 \<Rightarrow> 'a framebuffer_base_t_scheme \<Rightarrow>
     bool \<times> 'a framebuffer_base_t_scheme \<times> gl_call list \<times> log_line list" where
  "allocate gl w h t0 =
     (let (first1, t1, c1) =
            (if fb t0 = -1 then (True, t0\<lparr>fb := glGenFramebuffers gl\<rparr>, [GlGenFramebuffers 1])
             else (False, t0, []));
          (first_allocate, t2, c2) =
            (if tex t1 = -1 then
               (let t = t1\<lparr>tex := glGenTextures gl\<rparr>
                in (True, t,
                    [GlGenTextures 1,
                     GlBindTexture GL_TEXTURE_2D (tex t),
                     GlTexParameteri GL_TEXTURE_2D GL_TEXTURE_WRAP_S GL_CLAMP_TO_EDGE,
                     GlTexParameteri GL_TEXTURE_2D GL_TEXTURE_WRAP_T GL_CLAMP_TO_EDGE,
                     GlTexParameteri GL_TEXTURE_2D GL_TEXTURE_MAG_FILTER GL_LINEAR,
                     GlTexParameteri GL_TEXTURE_2D GL_TEXTURE_MIN_FILTER GL_LINEAR]))
             else (first1, t1, []));
          is_resize =
            (fb t2 \<noteq> 0 \<and>
             (first_allocate \<or> w \<noteq> viewport_width t2 \<or> h \<noteq> viewport_height t2));
          c3 = (if is_resize then
                  [GlBindTexture GL_TEXTURE_2D (tex t2),
                   GlTexImage2D GL_TEXTURE_2D 0 GL_RGBA w h 0 GL_RGBA GL_UNSIGNED_BYTE]
                else []);
          c4 = (if first_allocate then
                  [GlBindFramebuffer GL_FRAMEBUFFER (fb t2),
                   GlBindTexture GL_TEXTURE_2D (tex t2),
                   GlFramebufferTexture2D GL_FRAMEBUFFER GL_COLOR_ATTACHMENT0
                     GL_TEXTURE_2D (tex t2) 0]
                else []);
          c5 = (if is_resize \<or> first_allocate then [GlCheckFramebufferStatus GL_FRAMEBUFFER]
                else [])
      in if (is_resize \<or> first_allocate) \<and>
            glCheckFramebufferStatus gl \<noteq> GL_FRAMEBUFFER_COMPLETE
         then (False, t2, c1 @ c2 @ c3 @ c4 @ c5, [LOGE ''Failed to initialize framebuffer''])
         else (is_resize \<or> first_allocate,
               t2\<lparr>viewport_width := w, viewport_height := h\<rparr>,
               c1 @ c2 @ c3 @ c4 @ c5 @
                 [GlBindTexture GL_TEXTURE_2D 0, GlBindFramebuffer GL_FRAMEBUFFER 0],
               []))"

section \<open>Texture view: \<open>wf::texture_t\<close>\<close>

text \<open>
  The three texture format classes.  The enumeration's fourth value \<open>TEXTURE_TYPE_ALL\<close>
  is the number of classes (the size of the per-class arrays), not a class.
\<close>

datatype texture_type_t = TEXTURE_TYPE_RGBA | TEXTURE_TYPE_RGBX | TEXTURE_TYPE_EXTERNAL

record texture_t =
  type :: texture_type_t
  target :: u32
  invert_y :: bool
  tex_id :: u32

text \<open>
  What \<open>wlr_gles2_texture_get_attribs\<close> reports for an imported texture, and whether
  \<open>wlr_texture_is_gles2\<close> holds of it.
\<close>

record wlr_gles2_texture_attribs =
  attribs_target :: u32
  attribs_tex :: u32
  inverted_y :: bool
  has_alpha :: bool

record wlr_texture =
  wlr_texture_is_gles2 :: bool
  wlr_gles2_texture_get_attribs :: wlr_gles2_texture_attribs

text \<open>
  The constructor \<open>texture_t(wlr_texture*)\<close>; \<open>None\<close> is the failed assertion.
\<close>

definition texture_t_of_wlr_texture :: "wlr_texture \<Rightarrow> texture_t option" where
  "texture_t_of_wlr_texture texture =
     (if \<not> wlr_texture_is_gles2 texture then None
      else
        let attribs = wlr_gles2_texture_get_attribs texture
        in Some \<lparr>type = (if attribs_target attribs = GL_TEXTURE_2D
                         then (if has_alpha attribs then TEXTURE_TYPE_RGBA
                               else TEXTURE_TYPE_RGBX)
                         else TEXTURE_TYPE_EXTERNAL),
                 target = attribs_target attribs,
                 invert_y = (\<not> inverted_y attribs),
                 tex_id = attribs_tex attribs\<rparr>)"

section \<open>Shader program multiplexer: \<open>OpenGL::program_t\<close>\<close>

text \<open>
  \<open>program_t::impl\<close>.  A \<open>std::set<int>\<close> is the ascending list of its elements, the
  order in which the code iterates over it; the arrays indexed by texture type are
  functions; a \<open>std::map\<close> from names is a partial function.  \<open>active_program_idx\<close>
  starts as 0, the index of \<open>TEXTURE_TYPE_RGBA\<close>.
\<close>

record program_impl =
  active_attrs :: "int list"
  active_attrs_divisors :: "int list"
  active_program_idx :: texture_type_t
  id_arr :: "texture_type_t \<Rightarrow> u32"
  uniforms :: "texture_type_t \<Rightarrow> string \<rightharpoonup> int"
  attribs :: "texture_type_t \<Rightarrow> string \<rightharpoonup> int"

definition program_t_new :: program_impl where
  "program_t_new =
     \<lparr>active_attrs = [], active_attrs_divisors = [],
      active_program_idx = TEXTURE_TYPE_RGBA,
      id_arr = (\<lambda>_. 0), uniforms = (\<lambda>_. Map.empty), attribs = (\<lambda>_. Map.empty)\<rparr>"

datatype runtime_error = Runtime_error string

definition find_uniform_loc ::
    "gl_driver \<Rightarrow> string \<Rightarrow> program_impl \<Rightarrow> int \<times> program_impl \<times> gl_call list" where
  "find_uniform_loc gl name p =
     (let idx = active_program_idx p
      in case uniforms p idx name of
           Some loc \<Rightarrow> (loc, p, [])
         | None \<Rightarrow>
             (let loc = glGetUniformLocation gl (id_arr p idx) name
              in (loc,
                  p\<lparr>uniforms := (uniforms p)(idx := (uniforms p idx)(name \<mapsto> loc))\<rparr>,
                  [GlGetUniformLocation (id_arr p idx) name])))"

definition find_attrib_loc ::
    "gl_driver \<Rightarrow> string \<Rightarrow> program_impl \<Rightarrow> int \<times> program_impl \<times> gl_call list" where
  "find_attrib_loc gl name p =
     (let idx = active_program_idx p
      in case attribs p idx name of
           Some loc \<Rightarrow> (loc, p, [])
         | None \<Rightarrow>
             (let loc = glGetAttribLocation gl (id_arr p idx) name
              in (loc,
                  p\<lparr>attribs := (attribs p)(idx := (attribs p idx)(name \<mapsto> loc))\<rparr>,
                  [GlGetAttribLocation (id_arr p idx) name])))"

text \<open>The loop of \<open>free_resources\<close> over the three classes, in index order.\<close>

definition free_resource :: "texture_type_t \<Rightarrow> program_impl gl_action" where
  "free_resource i p =
     (if id_arr p i \<noteq> 0 then (p\<lparr>id_arr := (id_arr p)(i := 0)\<rparr>, [GlDeleteProgram (id_arr p i)])
      else (p, []))"

definition free_resources :: "program_impl gl_action" where
  "free_resources =
     run_actions (map free_resource
       [TEXTURE_TYPE_RGBA, TEXTURE_TYPE_RGBX, TEXTURE_TYPE_EXTERNAL])"

definition set_simple :: "u32 \<Rightarrow> texture_type_t \<Rightarrow> program_impl gl_action" where
  "set_simple program_id ty p =
     (let (p1, c1) = free_resources p
      in (p1\<lparr>id_arr := (id_arr p1)(ty := program_id)\<rparr>, c1))"

definition to_string :: "texture_type_t \<Rightarrow> string" where
  "to_string ty =
     (case ty of TEXTURE_TYPE_RGBA \<Rightarrow> ''0'' | TEXTURE_TYPE_RGBX \<Rightarrow> ''1''
      | TEXTURE_TYPE_EXTERNAL \<Rightarrow> ''2'')"

text \<open>
  \<open>use\<close> either throws \<open>std::runtime_error\<close> (\<open>Inl\<close>) or returns; in both cases the
  multiplexer as the call leaves it and the OpenGL calls issued are part of the result.
\<close>

definition use ::
    "texture_type_t \<Rightarrow> program_impl \<Rightarrow> (runtime_error + unit) \<times> program_impl \<times> gl_call list"
  where
  "use ty p =
     (if id_arr p ty = 0 then
        (Inl (Runtime_error (''program_t has no program for type '' @ to_string ty)), p, [])
      else (Inr (), p\<lparr>active_program_idx := ty\<rparr>, [GlUseProgram (id_arr p ty)]))"

definition get_program_id :: "texture_type_t \<Rightarrow> program_impl \<Rightarrow> u32" where
  "get_program_id ty p = id_arr p ty"

definition uniform1i :: "gl_driver \<Rightarrow> string \<Rightarrow> int \<Rightarrow> program_impl gl_action" where
  "uniform1i gl name v p =
     (let (loc, p1, c1) = find_uniform_loc gl name p in (p1, c1 @ [GlUniform1i loc v]))"

definition uniform1f :: "gl_driver \<Rightarrow> string \<Rightarrow> float32 \<Rightarrow> program_impl gl_action" where
  "uniform1f gl name v p =
     (let (loc, p1, c1) = find_uniform_loc gl name p in (p1, c1 @ [GlUniform1f loc v]))"

definition uniform2f ::
    "gl_driver \<Rightarrow> string \<Rightarrow> float32 \<Rightarrow> float32 \<Rightarrow> program_impl gl_action" where
  "uniform2f gl name vx vy p =
     (let (loc, p1, c1) = find_uniform_loc gl name p in (p1, c1 @ [GlUniform2f loc vx vy]))"

definition uniform4f :: "gl_driver \<Rightarrow> string \<Rightarrow> vec4 \<Rightarrow> program_impl gl_action" where
  "uniform4f gl name v p =
     (let (loc, p1, c1) = find_uniform_loc gl name p;
          (r, g, b, a) = v
      in (p1, c1 @ [GlUniform4f loc r g b a]))"

definition uniformMatrix4f :: "gl_driver \<Rightarrow> string \<Rightarrow> mat4 \<Rightarrow> program_impl gl_action" where
  "uniformMatrix4f gl name v p =
     (let (loc, p1, c1) = find_uniform_loc gl name p
      in (p1, c1 @ [GlUniformMatrix4fv loc 1 GL_FALSE v]))"

definition attrib_pointer ::
    "gl_driver \<Rightarrow> string \<Rightarrow> int \<Rightarrow> int \<Rightarrow> float32 list \<Rightarrow> u32 \<Rightarrow> program_impl gl_action"
  where
  "attrib_pointer gl attrib sz stride ptr ty p =
     (let (loc, p1, c1) = find_attrib_loc gl attrib p
      in (p1\<lparr>active_attrs := insort_insert loc (active_attrs p1)\<rparr>,
          c1 @ [GlEnableVertexAttribArray loc,
                GlVertexAttribPointer loc sz ty GL_FALSE stride ptr]))"

definition attrib_divisor :: "gl_driver \<Rightarrow> string \<Rightarrow> int \<Rightarrow> program_impl gl_action" where
  "attrib_divisor gl attrib divisor p =
     (let (loc, p1, c1) = find_attrib_loc gl attrib p
      in (p1\<lparr>active_attrs_divisors := insort_insert loc (active_attrs_divisors p1)\<rparr>,
          c1 @ [GlVertexAttribDivisor loc divisor]))"

definition set_active_texture :: "gl_driver \<Rightarrow> texture_t \<Rightarrow> program_impl gl_action" where
  "set_active_texture gl texture =
     run_actions
       [gl_calls [GlActiveTexture GL_TEXTURE0,
                  GlBindTexture (target texture) (tex_id texture),
                  GlTexParameteri (target texture) GL_TEXTURE_MIN_FILTER GL_LINEAR],
        uniform1f gl ''_wayfire_y_base'' (float_of_int (if invert_y texture then 1 else 0)),
        uniform1f gl ''_wayfire_y_mult'' (float_of_int (if invert_y texture then -1 else 1))]"

definition deactivate :: "program_impl gl_action" where
  "deactivate p =
     (p\<lparr>active_attrs_divisors := [], active_attrs := []\<rparr>,
      map (\<lambda>loc. GlVertexAttribDivisor loc 0) (active_attrs_divisors p) @
      map GlDisableVertexAttribArray (active_attrs p) @
      [GlUseProgram 0])"

text \<open>A call of \<open>attrib_pointer\<close> or of \<open>attrib_divisor\<close>, with its arguments.\<close>

datatype attrib_request =
    Attrib_pointer string int int "float32 list" u32
  | Attrib_divisor string int

fun attrib_request_action :: "gl_driver \<Rightarrow> attrib_request \<Rightarrow> program_impl gl_action" where
  "attrib_request_action gl (Attrib_pointer attrib sz stride ptr ty) =
     attrib_pointer gl attrib sz stride ptr ty"
| "attrib_request_action gl (Attrib_divisor attrib divisor) = attrib_divisor gl attrib divisor"

section \<open>Render pipeline\<close>

definition TEXTURE_TRANSFORM_INVERT_X :: u32 where "TEXTURE_TRANSFORM_INVERT_X = 1"
definition TEXTURE_TRANSFORM_INVERT_Y :: u32 where "TEXTURE_TRANSFORM_INVERT_Y = 2"
definition TEXTURE_USE_TEX_GEOMETRY :: u32 where "TEXTURE_USE_TEX_GEOMETRY = 4"

text \<open>
  \<open>glm::ortho\<close> and the product of two \<open>glm::mat4\<close> belong to the GLM library; they are
  parameters of the model.
\<close>

record glm_lib =
  glm_ortho :: "float32 \<Rightarrow> float32 \<Rightarrow> float32 \<Rightarrow> float32 \<Rightarrow> mat4"
  glm_mat_mul :: "mat4 \<Rightarrow> mat4 \<Rightarrow> mat4"

definition get_orthographic_projection :: "glm_lib \<Rightarrow> framebuffer_t \<Rightarrow> mat4" where
  "get_orthographic_projection glm fbuf =
     (let g = geometry fbuf;
          one = Finite 1;
          ortho = glm_ortho glm
            (f32_mul one (float_of_int (x g)))
            (f32_add (f32_mul one (float_of_int (x g))) (f32_mul one (float_of_int (width g))))
            (f32_add (f32_mul one (float_of_int (y g))) (f32_mul one (float_of_int (height g))))
            (f32_mul one (float_of_int (y g)))
      in glm_mat_mul glm (transform fbuf) ortho)"

text \<open>
  The three overloads of \<open>render_transformed_texture\<close>, on the global \<open>program\<close>: the one
  taking two \<open>gl_geometry\<close>, the one taking a \<open>wf::geometry_t\<close> and a matrix, and the one
  taking a \<open>wf::framebuffer_t\<close> (declared in the header as \<open>render_texture\<close>).
\<close>

definition render_transformed_texture ::
    "gl_driver \<Rightarrow> texture_t \<Rightarrow> gl_geometry \<Rightarrow> gl_geometry \<Rightarrow> mat4 \<Rightarrow> vec4 \<Rightarrow> u32 \<Rightarrow>
     program_impl \<Rightarrow> (runtime_error + unit) \<times> program_impl \<times> gl_call list" where
  "render_transformed_texture gl tx g texg model color bits program =
     (case use (type tx) program of
        (Inl e, p0, c0) \<Rightarrow> (Inl e, p0, c0)
      | (Inr _, p0, c0) \<Rightarrow>
          (let g1 = (if bits AND TEXTURE_TRANSFORM_INVERT_Y \<noteq> 0
                     then g\<lparr>y1 := y2 g, y2 := y1 g\<rparr> else g);
               final_g = (if bits AND TEXTURE_TRANSFORM_INVERT_X \<noteq> 0
                          then g1\<lparr>x1 := x2 g1, x2 := x1 g1\<rparr> else g1);
               vertexData = [x1 final_g, y2 final_g,
                             x2 final_g, y2 final_g,
                             x2 final_g, y1 final_g,
                             x1 final_g, y1 final_g];
               coordData = (if bits AND TEXTURE_USE_TEX_GEOMETRY \<noteq> 0
                            then [x1 texg, y2 texg,
                                  x2 texg, y2 texg,
                                  x2 texg, y1 texg,
                                  x1 texg, y1 texg]
                            else [Finite 0, Finite 0,
                                  Finite 1, Finite 0,
                                  Finite 1, Finite 1,
                                  Finite 0, Finite 1]);
               (p1, c1) = run_actions
                 [set_active_texture gl tx,
                  attrib_pointer gl ''position'' 2 0 vertexData GL_FLOAT,
                  attrib_pointer gl ''uvPosition'' 2 0 coordData GL_FLOAT,
                  uniformMatrix4f gl ''MVP'' model,
                  uniform4f gl ''color'' color,
                  gl_calls [GlEnable GL_BLEND,
                            GlBlendFunc GL_ONE GL_ONE_MINUS_SRC_ALPHA,
                            GlDrawArrays GL_TRIANGLE_FAN 0 4],
                  deactivate] p0
           in (Inr (), p1, c0 @ c1)))"

definition render_transformed_texture_geometry ::
    "gl_driver \<Rightarrow> texture_t \<Rightarrow> geometry_t \<Rightarrow> mat4 \<Rightarrow> vec4 \<Rightarrow> u32 \<Rightarrow>
     program_impl \<Rightarrow> (runtime_error + unit) \<times> program_impl \<times> gl_call list" where
  "render_transformed_texture_geometry gl texture geom tr color bits program =
     (let bits1 = bits AND NOT TEXTURE_USE_TEX_GEOMETRY;
          gx1 = float_of_int (x geom);
          gy1 = float_of_int (y geom);
          gg = \<lparr>x1 = gx1, y1 = gy1,
                x2 = f32_add gx1 (float_of_int (width geom)),
                y2 = f32_add gy1 (float_of_int (height geom))\<rparr>;
          texg = \<lparr>x1 = Finite 0, y1 = Finite 0, x2 = Finite 0, y2 = Finite 0\<rparr>
      in render_transformed_texture gl texture gg texg tr color bits1 program)"

text \<open>
  In the overload for a framebuffer, \<open>actual_geometry\<close> is the local variable of the
  source; its additions wrap here (an overflow is undefined in C++).
\<close>

definition render_transformed_texture_framebuffer ::
    "gl_driver \<Rightarrow> glm_lib \<Rightarrow> texture_t \<Rightarrow> framebuffer_t \<Rightarrow> geometry_t \<Rightarrow> vec4 \<Rightarrow> u32 \<Rightarrow>
     program_impl \<Rightarrow> (runtime_error + unit) \<times> program_impl \<times> gl_call list" where
  "render_transformed_texture_framebuffer gl glm texture framebuffer geom color bits program =
     (let actual_geometry = geom;
          actual_geometry = actual_geometry\<lparr>x := x actual_geometry + x (geometry framebuffer)\<rparr>;
          actual_geometry = actual_geometry\<lparr>y := y actual_geometry + y (geometry framebuffer)\<rparr>
      in render_transformed_texture_geometry gl texture geom
           (get_orthographic_projection glm framebuffer) color bits program)"

section \<open>Example inputs\<close>

text \<open>
  A driver that reports every framebuffer complete, an allocated target, an output
  target at \<open>(5, 7)\<close> with scale 1 and no rotation, an imported external texture, a
  multiplexer holding one program for RGBA textures, and an RGBA view.
\<close>

definition example_driver :: gl_driver where
  "example_driver =
     \<lparr>glGetUniformLocation = (\<lambda>_ name. if name = ''MVP'' then 0 else if name = ''color'' then 1
                                        else if name = ''_wayfire_y_base'' then 2 else 3),
      glGetAttribLocation = (\<lambda>_ name. if name = ''position'' then 0 else 1),
      glGenFramebuffers = 1, glGenTextures = 1,
      glCheckFramebufferStatus = GL_FRAMEBUFFER_COMPLETE\<rparr>"

definition example_target :: framebuffer_base_t where
  "example_target = \<lparr>tex = 1, fb = 1, viewport_width = 800, viewport_height = 600\<rparr>"

definition example_framebuffer :: framebuffer_t where
  "example_framebuffer =
     \<lparr>tex = 1, fb = 1, viewport_width = 800, viewport_height = 600,
      geometry = \<lparr>x = 5, y = 7, width = 800, height = 600\<rparr>,
      wl_transform = WL_OUTPUT_TRANSFORM_NORMAL, scale = Finite 1,
      has_nonstandard_transform = False, transform = mat4_identity\<rparr>"

definition example_texture :: wlr_texture where
  "example_texture =
     \<lparr>wlr_texture_is_gles2 = True,
      wlr_gles2_texture_get_attribs =
        \<lparr>attribs_target = 0x8D65, attribs_tex = 4, inverted_y = True, has_alpha = True\<rparr>\<rparr>"

definition example_program :: program_impl where
  "example_program = program_t_new\<lparr>id_arr := (\<lambda>_. 0)(TEXTURE_TYPE_RGBA := 7)\<rparr>"

definition example_view :: texture_t where
  "example_view =
     \<lparr>type = TEXTURE_TYPE_RGBA, target = GL_TEXTURE_2D, invert_y = False, tex_id = 3\<rparr>"

definition example_requests :: "attrib_request list" where
  "example_requests =
     [Attrib_pointer ''position'' 2 0 [Finite 0, Finite 1] GL_FLOAT,
      Attrib_divisor ''offset'' 1,
      Attrib_pointer ''uvPosition'' 2 0 [Finite 0, Finite 1] GL_FLOAT]"

text \<open>The line that \<open>framebuffer_box_from_damage_box\<close> logs.\<close>

definition unimplemented_line :: log_line where
  "unimplemented_line =
     LOGE (''unimplemented reached: framebuffer_box_from_geometry_box'' @
           '' with has_nonstandard_transform'')"

text \<open>
  The scaling of a coordinate \<open>v\<close> by \<open>s\<close> is exact when \<open>v\<close> and the product
  \<open>v * s\<close> are single-precision values (rounding leaves them as they are) and the
  product lies within the range of \<open>int\<close>.
\<close>

definition exactly_scaled :: "real \<Rightarrow> s32 \<Rightarrow> bool" where
  "exactly_scaled s v \<longleftrightarrow>
     \<bar>sint v\<bar> \<le> 2 ^ 24 \<and>
     f32_round (of_int (sint v) * s) = Finite (of_int (sint v) * s) \<and>
     \<bar>of_int (sint v) * s\<bar> \<le> 2 ^ 31 - 1"

section \<open>Rounding to single precision\<close>

lemma round_half_even_of_int: "round_half_even (of_int z) = z"
  by (simp add: round_half_even_def)

lemma f32_quantum_search_bounds:
  "e \<le> f32_quantum_search n e a \<and> f32_quantum_search n e a \<le> e + int n"
proof (induction n arbitrary: e)
  case 0
  show ?case by simp
next
  case (Suc n)
  from Suc.IH [of "e + 1"] show ?case by auto
qed

lemma f32_quantum_search_least:
  "e \<le> k \<Longrightarrow> k < f32_quantum_search n e a \<Longrightarrow> \<not> a < 2 powi (k + 24)"
proof (induction n arbitrary: e)
  case 0
  then show ?case by simp
next
  case (Suc n)
  show ?case
  proof (cases "a < 2 powi (e + 24)")
    case True
    with Suc.prems show ?thesis by simp
  next
    case False
    show ?thesis
    proof (cases "k = e")
      case True
      with False show ?thesis by simp
    next
      case False2: False
      with Suc.prems False have "e + 1 \<le> k" "k < f32_quantum_search n (e + 1) a"
        by simp_all
      then show ?thesis by (rule Suc.IH)
    qed
  qed
qed

lemma f32_quantum_search_found:
  "f32_quantum_search n e a < e + int n \<Longrightarrow> a < 2 powi (f32_quantum_search n e a + 24)"
proof (induction n arbitrary: e)
  case 0
  then show ?case by simp
next
  case (Suc n)
  show ?case
  proof (cases "a < 2 powi (e + 24)")
    case True
    then show ?thesis by simp
  next
    case False
    with Suc.prems have "f32_quantum_search n (e + 1) a < (e + 1) + int n" by simp
    from Suc.IH [OF this] False show ?thesis by simp
  qed
qed

lemma f32_quantum_exp_range: "-149 \<le> f32_quantum_exp a \<and> f32_quantum_exp a \<le> 104"
  using f32_quantum_search_bounds [of "-149" 253 a] by (simp add: f32_quantum_exp_def)

lemma f32_quantum_exp_le:
  assumes "a < 2 powi (j + 24)" and "-149 \<le> j"
  shows "f32_quantum_exp a \<le> j"
proof (rule ccontr)
  assume "\<not> f32_quantum_exp a \<le> j"
  then have "j < f32_quantum_search 253 (-149) a" by (simp add: f32_quantum_exp_def)
  from f32_quantum_search_least [OF assms(2) this] assms(1) show False by simp
qed

lemma f32_round_exact:
  assumes k: "\<bar>k\<bar> < 2 ^ 24" and j: "-149 \<le> j" "j \<le> 104"
  shows "f32_round (of_int k * 2 powi j) = Finite (of_int k * 2 powi j)"
proof -
  define r :: real where "r = of_int k * 2 powi j"
  define e where "e = f32_quantum_exp \<bar>r\<bar>"
  have "\<bar>r\<bar> = of_int \<bar>k\<bar> * 2 powi j" by (simp add: r_def abs_mult)
  also have "\<dots> < 2 ^ 24 * 2 powi j"
    using k by (intro mult_strict_right_mono) (simp_all add: of_int_less_numeral_power_cancel_iff)
  also have "\<dots> = 2 powi (j + 24)" by (simp add: power_int_add)
  finally have "\<bar>r\<bar> < 2 powi (j + 24)" .
  then have ej: "e \<le> j" unfolding e_def using j(1) by (rule f32_quantum_exp_le)
  have e_lo: "-149 \<le> e" unfolding e_def using f32_quantum_exp_range by simp
  define z where "z = k * 2 ^ nat (j - e)"
  have "2 powi j = (2::real) powi (j - e) * 2 powi e"
    by (simp flip: power_int_add)
  also have "(2::real) powi (j - e) = 2 ^ nat (j - e)"
    using ej by (simp add: power_int_def)
  finally have pj: "(2::real) powi j = 2 ^ nat (j - e) * 2 powi e" .
  have quot: "r / 2 powi e = of_int z"
    by (simp add: r_def z_def pj)
  have m: "round_half_even (r / 2 powi e) = z"
    by (simp add: quot round_half_even_of_int)
  have val: "of_int z * 2 powi e = r"
    by (simp add: r_def z_def pj)
  have no_ovf: "\<not> (2 ^ 24 \<le> \<bar>z\<bar> \<and> e = 104)"
  proof
    assume a: "2 ^ 24 \<le> \<bar>z\<bar> \<and> e = 104"
    with ej j have "j = e" by simp
    then have "z = k" by (simp add: z_def)
    with a k show False by simp
  qed
  show ?thesis
    unfolding r_def [symmetric] f32_round_def Let_def e_def [symmetric] m
    using no_ovf val by simp
qed

lemma f32_round_of_int:
  assumes "\<bar>v\<bar> \<le> 2 ^ 24"
  shows "f32_round (of_int v) = Finite (of_int v)"
proof (cases "\<bar>v\<bar> < 2 ^ 24")
  case True
  from f32_round_exact [OF True, of 0] show ?thesis by simp
next
  case False
  with assms have "\<bar>v\<bar> = 2 ^ 24" by simp
  then have "v = 2 ^ 23 * 2 \<or> v = - (2 ^ 23) * 2" by auto
  then show ?thesis
  proof
    assume v: "v = 2 ^ 23 * 2"
    have "f32_round (of_int (2 ^ 23) * 2 powi 1) = Finite (of_int (2 ^ 23) * 2 powi 1)"
      by (rule f32_round_exact) simp_all
    then show ?thesis by (simp add: v)
  next
    assume v: "v = - (2 ^ 23) * 2"
    have "f32_round (of_int (- (2 ^ 23)) * 2 powi 1) = Finite (of_int (- (2 ^ 23)) * 2 powi 1)"
      by (rule f32_round_exact) simp_all
    then show ?thesis by (simp add: v)
  qed
qed

lemma float_of_int_exact:
  assumes "\<bar>sint i\<bar> \<le> 2 ^ 24"
  shows "float_of_int i = Finite (of_int (sint i))"
  unfolding float_of_int_def using assms by (rule f32_round_of_int)

lemma sint_word_of_int_s32:
  assumes "- (2 ^ 31) \<le> n" "n < 2 ^ 31"
  shows "sint (word_of_int n :: s32) = n"
  using assms by (simp add: sint_sbintrunc' signed_take_bit_int_eq_self)

lemma int_of_float_of_int:
  assumes "- (2 ^ 31) \<le> n" "n < 2 ^ 31"
  shows "int_of_float (Finite (of_int n)) = Some (word_of_int n)"
  using assms by (simp add: Let_def)

lemma floor_in_range:
  assumes "\<bar>r\<bar> \<le> 2 ^ 31 - 1"
  shows "- (2 ^ 31) \<le> \<lfloor>r :: real\<rfloor> \<and> \<lfloor>r\<rfloor> < 2 ^ 31"
proof -
  from assms have "- (2 ^ 31 - 1) \<le> r" "r \<le> 2 ^ 31 - 1" by (simp_all add: abs_le_iff)
  then have "of_int (- (2 ^ 31 - 1)) \<le> r" "r < of_int (2 ^ 31)" by simp_all
  then have "- (2 ^ 31 - 1) \<le> \<lfloor>r\<rfloor>" "\<lfloor>r\<rfloor> < 2 ^ 31"
    unfolding le_floor_iff floor_less_iff by simp_all
  then show ?thesis by simp
qed

lemma ceiling_in_range:
  assumes "\<bar>r\<bar> \<le> 2 ^ 31 - 1"
  shows "- (2 ^ 31) \<le> \<lceil>r :: real\<rceil> \<and> \<lceil>r\<rceil> < 2 ^ 31"
proof -
  from assms have "- (2 ^ 31 - 1) \<le> r" "r \<le> 2 ^ 31 - 1" by (simp_all add: abs_le_iff)
  then have "of_int (- (2 ^ 31)) < r" "r \<le> of_int (2 ^ 31 - 1)" by simp_all
  then have "- (2 ^ 31) < \<lceil>r\<rceil>" "\<lceil>r\<rceil> \<le> 2 ^ 31 - 1"
    unfolding less_ceiling_iff ceiling_le_iff by simp_all
  then show ?thesis by simp
qed

lemma scaled_floor:
  assumes "exactly_scaled s v"
  shows "int_of_float (std_floor (f32_mul (float_of_int v) (Finite s)))
           = Some (word_of_int \<lfloor>of_int (sint v) * s\<rfloor>)"
proof -
  from assms have "float_of_int v = Finite (of_int (sint v))"
    by (simp add: exactly_scaled_def float_of_int_exact)
  moreover from assms have "f32_round (of_int (sint v) * s) = Finite (of_int (sint v) * s)"
    by (simp add: exactly_scaled_def)
  moreover from assms have "- (2 ^ 31) \<le> \<lfloor>of_int (sint v) * s\<rfloor> \<and> \<lfloor>of_int (sint v) * s\<rfloor> < 2 ^ 31"
    by (intro floor_in_range) (simp add: exactly_scaled_def)
  ultimately show ?thesis
    using int_of_float_of_int [of "\<lfloor>of_int (sint v) * s\<rfloor>"] by simp
qed

lemma scaled_ceil:
  assumes "exactly_scaled s v"
  shows "int_of_float (std_ceil (f32_mul (float_of_int v) (Finite s)))
           = Some (word_of_int \<lceil>of_int (sint v) * s\<rceil>)"
proof -
  from assms have "float_of_int v = Finite (of_int (sint v))"
    by (simp add: exactly_scaled_def float_of_int_exact)
  moreover from assms have "f32_round (of_int (sint v) * s) = Finite (of_int (sint v) * s)"
    by (simp add: exactly_scaled_def)
  moreover from assms have "- (2 ^ 31) \<le> \<lceil>of_int (sint v) * s\<rceil> \<and> \<lceil>of_int (sint v) * s\<rceil> < 2 ^ 31"
    by (intro ceiling_in_range) (simp add: exactly_scaled_def)
  ultimately show ?thesis
    using int_of_float_of_int [of "\<lceil>of_int (sint v) * s\<rceil>"] by simp
qed

lemma damage_box_exact:
  assumes "scale fbuf = Finite s"
    and "exactly_scaled s (x box)" "exactly_scaled s (y box)"
    and "exactly_scaled s (width box)" "exactly_scaled s (height box)"
  shows "damage_box_from_geometry_box fbuf box =
           Some (box\<lparr>x := word_of_int \<lfloor>of_int (sint (x box)) * s\<rfloor>,
                     y := word_of_int \<lfloor>of_int (sint (y box)) * s\<rfloor>,
                     width := word_of_int \<lceil>of_int (sint (width box)) * s\<rceil>,
                     height := word_of_int \<lceil>of_int (sint (height box)) * s\<rceil>\<rparr>)"
  unfolding damage_box_from_geometry_box_def assms(1)
  by (simp only: scaled_floor [OF assms(2)] scaled_floor [OF assms(3)]
      scaled_ceil [OF assms(4)] scaled_ceil [OF assms(5)] bind.bind_lunit)

lemma exactly_scaled_one:
  assumes "\<bar>sint v\<bar> \<le> 2 ^ 24"
  shows "exactly_scaled 1 v"
proof -
  from assms have "\<bar>real_of_int (sint v)\<bar> \<le> 2 ^ 24"
    by (metis of_int_abs of_int_le_numeral_power_cancel_iff)
  then have "\<bar>real_of_int (sint v)\<bar> \<le> 2 ^ 31 - 1" by simp
  with assms f32_round_of_int [OF assms] show ?thesis
    by (simp add: exactly_scaled_def del: of_int_sint)
qed

lemma exactly_scaled_halves:
  assumes "\<bar>sint v * k\<bar> < 2 ^ 24" "\<bar>sint v\<bar> \<le> 2 ^ 24"
  shows "exactly_scaled (of_int k / 2) v"
proof -
  have "f32_round (of_int (sint v * k) * 2 powi (-1)) = Finite (of_int (sint v * k) * 2 powi (-1))"
    using assms(1) by (intro f32_round_exact) simp_all
  then have r: "f32_round (of_int (sint v) * (of_int k / 2)) = Finite (of_int (sint v) * (of_int k / 2))"
    by (simp add: power_int_minus field_simps)
  have "\<bar>real_of_int (sint v * k)\<bar> < 2 ^ 24"
    using assms(1) by (metis of_int_abs of_int_less_numeral_power_cancel_iff)
  then have "\<bar>real_of_int (sint v) * (of_int k / 2)\<bar> \<le> 2 ^ 31 - 1"
    by (simp add: abs_mult)
  with r assms(2) show ?thesis by (simp add: exactly_scaled_def del: of_int_sint)
qed

lemma int_of_float_floor_Some:
  assumes "int_of_float (std_floor f) = Some w"
  shows "\<exists>p. f = Finite p \<and> sint w = \<lfloor>p\<rfloor>"
proof (cases f)
  case (Finite p)
  with assms have "- (2 ^ 31) \<le> \<lfloor>p\<rfloor> \<and> \<lfloor>p\<rfloor> < 2 ^ 31" and "w = word_of_int \<lfloor>p\<rfloor>"
    by (auto simp: Let_def split: if_splits)
  with Finite show ?thesis by (simp add: sint_word_of_int_s32)
next
  case (Infinity s)
  with assms show ?thesis by simp
next
  case NaN
  with assms show ?thesis by simp
qed

lemma int_of_float_ceil_Some:
  assumes "int_of_float (std_ceil f) = Some w"
  shows "\<exists>p. f = Finite p \<and> sint w = \<lceil>p\<rceil>"
proof (cases f)
  case (Finite p)
  with assms have "- (2 ^ 31) \<le> \<lceil>p\<rceil> \<and> \<lceil>p\<rceil> < 2 ^ 31" and "w = word_of_int \<lceil>p\<rceil>"
    by (auto simp: Let_def split: if_splits)
  with Finite show ?thesis by (simp add: sint_word_of_int_s32)
next
  case (Infinity s)
  with assms show ?thesis by simp
next
  case NaN
  with assms show ?thesis by simp
qed

lemma damage_box_Some:
  assumes "damage_box_from_geometry_box fbuf box = Some d"
  shows "\<exists>px py pw ph.
           f32_mul (float_of_int (x box)) (scale fbuf) = Finite px \<and>
           f32_mul (float_of_int (y box)) (scale fbuf) = Finite py \<and>
           f32_mul (float_of_int (width box)) (scale fbuf) = Finite pw \<and>
           f32_mul (float_of_int (height box)) (scale fbuf) = Finite ph \<and>
           sint (x d) = \<lfloor>px\<rfloor> \<and> sint (y d) = \<lfloor>py\<rfloor> \<and>
           sint (width d) = \<lceil>pw\<rceil> \<and> sint (height d) = \<lceil>ph\<rceil>"
proof -
  from assms obtain bx byy bw bh where
    bx: "int_of_float (std_floor (f32_mul (float_of_int (x box)) (scale fbuf))) = Some bx" and
    byy: "int_of_float (std_floor (f32_mul (float_of_int (y box)) (scale fbuf))) = Some byy" and
    bw: "int_of_float (std_ceil (f32_mul (float_of_int (width box)) (scale fbuf))) = Some bw" and
    bh: "int_of_float (std_ceil (f32_mul (float_of_int (height box)) (scale fbuf))) = Some bh" and
    d: "d = box\<lparr>x := bx, y := byy, width := bw, height := bh\<rparr>"
    by (auto simp: damage_box_from_geometry_box_def bind_eq_Some_conv)
  from int_of_float_floor_Some [OF bx] int_of_float_floor_Some [OF byy]
    int_of_float_ceil_Some [OF bw] int_of_float_ceil_Some [OF bh]
  show ?thesis unfolding d by auto
qed

lemma sint_small [simp]:
  "sint (0 :: s32) = 0" "sint (1 :: s32) = 1" "sint (2 :: s32) = 2" "sint (3 :: s32) = 3"
  "sint (5 :: s32) = 5" "sint (6 :: s32) = 6" "sint (7 :: s32) = 7" "sint (8 :: s32) = 8"
  "sint (10 :: s32) = 10"
  by simp_all

lemma float_of_int_small:
  "float_of_int 0 = Finite 0" "float_of_int 1 = Finite 1" "float_of_int 10 = Finite 10"
  "float_of_int (-1) = Finite (-1)"
  using float_of_int_exact [of 0] float_of_int_exact [of 1] float_of_int_exact [of 10]
    float_of_int_exact [of "-1"]
  by simp_all

lemma f32_round_ten: "f32_round 10 = Finite 10"
  using f32_round_of_int [of 10] by simp

section \<open>Render pipeline: the overload for a framebuffer\<close>

text \<open>
  C1: the overload of \<open>render_transformed_texture\<close> for a framebuffer computes
  \<open>actual_geometry\<close>, the geometry moved by the origin of the framebuffer's rectangle,
  and then passes the geometry it was given: for every input it behaves as the overload
  for a geometry called with the unmoved geometry and the framebuffer's orthographic
  projection.  On the framebuffer at \<open>(5, 7)\<close>, the quad of the geometry
  \<open>(0, 0, 10, 10)\<close> is sent with the corners \<open>(0, 0)\<close> and \<open>(10, 10)\<close>, not
  \<open>(5, 7)\<close> and \<open>(15, 17)\<close>.
\<close>

theorem render_framebuffer_quad_not_offset:
  "render_transformed_texture_framebuffer gl glm texture fbuf geom color bits program =
     render_transformed_texture_geometry gl texture geom
       (get_orthographic_projection glm fbuf) color bits program \<and>
   x (geometry example_framebuffer) = 5 \<and> y (geometry example_framebuffer) = 7 \<and>
   GlVertexAttribPointer 0 2 GL_FLOAT GL_FALSE 0
       [Finite 0, Finite 10, Finite 10, Finite 10, Finite 10, Finite 0, Finite 0, Finite 0]
     \<in> set (snd (snd (render_transformed_texture_framebuffer example_driver glm example_view
                 example_framebuffer \<lparr>x = 0, y = 0, width = 10, height = 10\<rparr>
                 (Finite 1, Finite 1, Finite 1, Finite 1) 0 example_program))) \<and>
   GlVertexAttribPointer 0 2 GL_FLOAT GL_FALSE 0
       [Finite 5, Finite 17, Finite 15, Finite 17, Finite 15, Finite 7, Finite 5, Finite 7]
     \<notin> set (snd (snd (render_transformed_texture_framebuffer example_driver glm example_view
                 example_framebuffer \<lparr>x = 0, y = 0, width = 10, height = 10\<rparr>
                 (Finite 1, Finite 1, Finite 1, Finite 1) 0 example_program)))"
proof -
  have calls: "snd (snd (render_transformed_texture_framebuffer example_driver glm example_view
                 example_framebuffer \<lparr>x = 0, y = 0, width = 10, height = 10\<rparr>
                 (Finite 1, Finite 1, Finite 1, Finite 1) 0 example_program)) =
     [GlUseProgram 7,
      GlActiveTexture GL_TEXTURE0,
      GlBindTexture GL_TEXTURE_2D 3,
      GlTexParameteri GL_TEXTURE_2D GL_TEXTURE_MIN_FILTER GL_LINEAR,
      GlGetUniformLocation 7 ''_wayfire_y_base'',
      GlUniform1f 2 (Finite 0),
      GlGetUniformLocation 7 ''_wayfire_y_mult'',
      GlUniform1f 3 (Finite 1),
      GlGetAttribLocation 7 ''position'',
      GlEnableVertexAttribArray 0,
      GlVertexAttribPointer 0 2 GL_FLOAT GL_FALSE 0
        [Finite 0, Finite 10, Finite 10, Finite 10, Finite 10, Finite 0, Finite 0, Finite 0],
      GlGetAttribLocation 7 ''uvPosition'',
      GlEnableVertexAttribArray 1,
      GlVertexAttribPointer 1 2 GL_FLOAT GL_FALSE 0
        [Finite 0, Finite 0, Finite 1, Finite 0, Finite 1, Finite 1, Finite 0, Finite 1],
      GlGetUniformLocation 7 ''MVP'',
      GlUniformMatrix4fv 0 1 GL_FALSE (get_orthographic_projection glm example_framebuffer),
      GlGetUniformLocation 7 ''color'',
      GlUniform4f 1 (Finite 1) (Finite 1) (Finite 1) (Finite 1),
      GlEnable GL_BLEND,
      GlBlendFunc GL_ONE GL_ONE_MINUS_SRC_ALPHA,
      GlDrawArrays GL_TRIANGLE_FAN 0 4,
      GlDisableVertexAttribArray 0,
      GlDisableVertexAttribArray 1,
      GlUseProgram 0]"
    by (simp add: render_transformed_texture_framebuffer_def
        render_transformed_texture_geometry_def render_transformed_texture_def
        use_def set_active_texture_def uniform1f_def uniform4f_def uniformMatrix4f_def
        find_uniform_loc_def find_attrib_loc_def attrib_pointer_def gl_calls_def
        deactivate_def example_driver_def example_program_def example_view_def
        program_t_new_def float_of_int_small f32_round_ten Let_def insort_insert_key_def
        TEXTURE_TRANSFORM_INVERT_X_def TEXTURE_TRANSFORM_INVERT_Y_def
        TEXTURE_USE_TEX_GEOMETRY_def)
  have gen: "render_transformed_texture_framebuffer gl glm texture fbuf geom color bits program =
     render_transformed_texture_geometry gl texture geom
       (get_orthographic_projection glm fbuf) color bits program"
    by (simp add: render_transformed_texture_framebuffer_def Let_def)
  show ?thesis
    unfolding calls using gen by (simp add: example_framebuffer_def)
qed

section \<open>Coordinate conversions\<close>

text \<open>
  C2, as amended: on a target whose \<open>has_nonstandard_transform\<close> is set,
  \<open>framebuffer_box_from_damage_box\<close> logs one "unimplemented" line and returns the
  box \<open>(0, 0, 0, 0)\<close> for every box, and so does \<open>framebuffer_box_from_geometry_box\<close>
  whenever the scaling of the box is defined; nothing is raised.
\<close>

theorem nonstandard_transform_returns_zero_box:
  assumes "has_nonstandard_transform fbuf"
  shows "framebuffer_box_from_damage_box fbuf box =
           ([unimplemented_line], \<lparr>x = 0, y = 0, width = 0, height = 0\<rparr>) \<and>
         (\<forall>d. damage_box_from_geometry_box fbuf box = Some d \<longrightarrow>
            framebuffer_box_from_geometry_box fbuf box =
              Some ([unimplemented_line], \<lparr>x = 0, y = 0, width = 0, height = 0\<rparr>))"
  using assms
  by (simp add: framebuffer_box_from_damage_box_def framebuffer_box_from_geometry_box_def
      unimplemented_line_def)

theorem nonstandard_transform_returns_zero_box_witness:
  "has_nonstandard_transform (example_framebuffer\<lparr>has_nonstandard_transform := True\<rparr>) \<and>
   damage_box_from_geometry_box (example_framebuffer\<lparr>has_nonstandard_transform := True\<rparr>)
     \<lparr>x = 5, y = 6, width = 7, height = 8\<rparr> = Some \<lparr>x = 5, y = 6, width = 7, height = 8\<rparr> \<and>
   framebuffer_box_from_geometry_box (example_framebuffer\<lparr>has_nonstandard_transform := True\<rparr>)
     \<lparr>x = 5, y = 6, width = 7, height = 8\<rparr>
     = Some ([unimplemented_line], \<lparr>x = 0, y = 0, width = 0, height = 0\<rparr>)"
proof -
  have d: "damage_box_from_geometry_box (example_framebuffer\<lparr>has_nonstandard_transform := True\<rparr>)
     \<lparr>x = 5, y = 6, width = 7, height = 8\<rparr> = Some \<lparr>x = 5, y = 6, width = 7, height = 8\<rparr>"
    using damage_box_exact [of "example_framebuffer\<lparr>has_nonstandard_transform := True\<rparr>" 1
        "\<lparr>x = 5, y = 6, width = 7, height = 8\<rparr>"]
      exactly_scaled_one [of 5] exactly_scaled_one [of 6]
      exactly_scaled_one [of 7] exactly_scaled_one [of 8]
    by (simp add: example_framebuffer_def)
  from d nonstandard_transform_returns_zero_box
    [of "example_framebuffer\<lparr>has_nonstandard_transform := True\<rparr>"
        "\<lparr>x = 5, y = 6, width = 7, height = 8\<rparr>"]
  show ?thesis by (simp add: example_framebuffer_def)
qed

text \<open>
  The claim as stated fails: with the flag set, the box \<open>(5, 6, 7, 8)\<close> is converted
  to the zero rectangle.
\<close>

theorem nonstandard_transform_counterexample:
  "has_nonstandard_transform (example_framebuffer\<lparr>has_nonstandard_transform := True\<rparr>) \<and>
   framebuffer_box_from_damage_box (example_framebuffer\<lparr>has_nonstandard_transform := True\<rparr>)
     \<lparr>x = 5, y = 6, width = 7, height = 8\<rparr>
     = ([unimplemented_line], \<lparr>x = 0, y = 0, width = 0, height = 0\<rparr>)"
  by (simp add: framebuffer_box_from_damage_box_def example_framebuffer_def
      unimplemented_line_def)

text \<open>
  C7: every coordinate of the damage box is the floor (origin) or the ceiling (extent)
  of the product that the code computes, the single-precision product of the coordinate
  and the scale; where the scaling is exact this is the floor or ceiling of the
  mathematical product.  In particular, at scale 1.5 the box \<open>(0, 0, 3, 3)\<close> becomes
  \<open>(0, 0, 5, 5)\<close> and the box \<open>(1, 1, 3, 3)\<close> becomes \<open>(1, 1, 5, 5)\<close>, with the
  origin \<open>(1, 1)\<close>.
\<close>

theorem damage_box_scale_rounding:
  "(damage_box_from_geometry_box fbuf box = Some d \<longrightarrow>
      (\<exists>px py pw ph.
         f32_mul (float_of_int (x box)) (scale fbuf) = Finite px \<and>
         f32_mul (float_of_int (y box)) (scale fbuf) = Finite py \<and>
         f32_mul (float_of_int (width box)) (scale fbuf) = Finite pw \<and>
         f32_mul (float_of_int (height box)) (scale fbuf) = Finite ph \<and>
         sint (x d) = \<lfloor>px\<rfloor> \<and> sint (y d) = \<lfloor>py\<rfloor> \<and>
         sint (width d) = \<lceil>pw\<rceil> \<and> sint (height d) = \<lceil>ph\<rceil>)) \<and>
   (scale fbuf = Finite s \<and> exactly_scaled s (x box) \<and> exactly_scaled s (y box) \<and>
    exactly_scaled s (width box) \<and> exactly_scaled s (height box) \<longrightarrow>
      damage_box_from_geometry_box fbuf box =
        Some (box\<lparr>x := word_of_int \<lfloor>of_int (sint (x box)) * s\<rfloor>,
                  y := word_of_int \<lfloor>of_int (sint (y box)) * s\<rfloor>,
                  width := word_of_int \<lceil>of_int (sint (width box)) * s\<rceil>,
                  height := word_of_int \<lceil>of_int (sint (height box)) * s\<rceil>\<rparr>)) \<and>
   (scale fbuf = Finite (3/2) \<longrightarrow>
      damage_box_from_geometry_box fbuf \<lparr>x = 0, y = 0, width = 3, height = 3\<rparr> =
        Some \<lparr>x = 0, y = 0, width = 5, height = 5\<rparr> \<and>
      damage_box_from_geometry_box fbuf \<lparr>x = 1, y = 1, width = 3, height = 3\<rparr> =
        Some \<lparr>x = 1, y = 1, width = 5, height = 5\<rparr>)"
proof -
  have e0: "exactly_scaled (3/2) 0" and e1: "exactly_scaled (3/2) 1"
    and e3: "exactly_scaled (3/2) 3"
    using exactly_scaled_halves [of 0 3] exactly_scaled_halves [of 1 3]
      exactly_scaled_halves [of 3 3]
    by simp_all
  have f1: "\<lfloor>3 / 2 :: real\<rfloor> = 1" and c3: "\<lceil>3 * (3 / 2) :: real\<rceil> = 5"
    by linarith+
  have a: "damage_box_from_geometry_box fbuf \<lparr>x = 0, y = 0, width = 3, height = 3\<rparr> =
             Some \<lparr>x = 0, y = 0, width = 5, height = 5\<rparr>"
    if "scale fbuf = Finite (3/2)"
    using damage_box_exact [OF that, of "\<lparr>x = 0, y = 0, width = 3, height = 3\<rparr>"] e0 e3 c3
    by simp
  have b: "damage_box_from_geometry_box fbuf \<lparr>x = 1, y = 1, width = 3, height = 3\<rparr> =
             Some \<lparr>x = 1, y = 1, width = 5, height = 5\<rparr>"
    if "scale fbuf = Finite (3/2)"
    using damage_box_exact [OF that, of "\<lparr>x = 1, y = 1, width = 3, height = 3\<rparr>"] e1 e3 c3 f1
    by simp
  from a b damage_box_exact [of fbuf s box] damage_box_Some [of fbuf box d]
  show ?thesis by blast
qed

theorem damage_box_scale_rounding_witness:
  "damage_box_from_geometry_box (example_framebuffer\<lparr>scale := Finite (3/2)\<rparr>)
     \<lparr>x = 0, y = 0, width = 3, height = 3\<rparr> = Some \<lparr>x = 0, y = 0, width = 5, height = 5\<rparr> \<and>
   scale (example_framebuffer\<lparr>scale := Finite (3/2)\<rparr>) = Finite (3/2) \<and>
   exactly_scaled (3/2) 0 \<and> exactly_scaled (3/2) 3 \<and>
   (\<exists>pw. f32_mul (float_of_int 3) (scale (example_framebuffer\<lparr>scale := Finite (3/2)\<rparr>))
           = Finite pw \<and> sint (5 :: s32) = \<lceil>pw\<rceil>)"
proof -
  have e: "exactly_scaled (3/2) 0" "exactly_scaled (3/2) 3"
    using exactly_scaled_halves [of 0 3] exactly_scaled_halves [of 3 3] by simp_all
  have c3: "\<lceil>3 * (3 / 2) :: real\<rceil> = 5" by linarith
  from e c3 damage_box_scale_rounding
    [of "example_framebuffer\<lparr>scale := Finite (3/2)\<rparr>"
        "\<lparr>x = 0, y = 0, width = 3, height = 3\<rparr>"
        "\<lparr>x = 0, y = 0, width = 5, height = 5\<rparr>" "3/2"]
  show ?thesis by auto
qed

text \<open>
  C3, as amended: when the scaling of the four coordinates is exact, the origin of the
  damage box is at most the scaled origin and its extent is at least the scaled extent
  (\<open>X \<le> x * s\<close>, \<open>Y \<le> y * s\<close>, \<open>W \<ge> w * s\<close>, \<open>H \<ge> h * s\<close>); the far
  edges are only bounded by \<open>X + W > (x + w) * s - 1\<close> and
  \<open>Y + H > (y + h) * s - 1\<close>.
\<close>

theorem damage_box_rounds_outward:
  assumes "scale fbuf = Finite s"
    and "exactly_scaled s (x box)" "exactly_scaled s (y box)"
    and "exactly_scaled s (width box)" "exactly_scaled s (height box)"
  shows "\<exists>d. damage_box_from_geometry_box fbuf box = Some d \<and>
           real_of_int (sint (x d)) \<le> real_of_int (sint (x box)) * s \<and>
           real_of_int (sint (y d)) \<le> real_of_int (sint (y box)) * s \<and>
           real_of_int (sint (width box)) * s \<le> real_of_int (sint (width d)) \<and>
           real_of_int (sint (height box)) * s \<le> real_of_int (sint (height d)) \<and>
           (real_of_int (sint (x box)) + real_of_int (sint (width box))) * s - 1
             < real_of_int (sint (x d) + sint (width d)) \<and>
           (real_of_int (sint (y box)) + real_of_int (sint (height box))) * s - 1
             < real_of_int (sint (y d) + sint (height d))"
proof -
  define X where "X = \<lfloor>real_of_int (sint (x box)) * s\<rfloor>"
  define Y where "Y = \<lfloor>real_of_int (sint (y box)) * s\<rfloor>"
  define W where "W = \<lceil>real_of_int (sint (width box)) * s\<rceil>"
  define H where "H = \<lceil>real_of_int (sint (height box)) * s\<rceil>"
  define d where "d = box\<lparr>x := word_of_int X, y := word_of_int Y,
                           width := word_of_int W, height := word_of_int H\<rparr>"
  have dam: "damage_box_from_geometry_box fbuf box = Some d"
    unfolding d_def X_def Y_def W_def H_def using assms by (rule damage_box_exact)
  have sX: "sint (x d) = X"
    using floor_in_range [of "real_of_int (sint (x box)) * s"] assms(2)
    by (simp add: d_def X_def exactly_scaled_def sint_word_of_int_s32 del: of_int_sint)
  have sY: "sint (y d) = Y"
    using floor_in_range [of "real_of_int (sint (y box)) * s"] assms(3)
    by (simp add: d_def Y_def exactly_scaled_def sint_word_of_int_s32 del: of_int_sint)
  have sW: "sint (width d) = W"
    using ceiling_in_range [of "real_of_int (sint (width box)) * s"] assms(4)
    by (simp add: d_def W_def exactly_scaled_def sint_word_of_int_s32 del: of_int_sint)
  have sH: "sint (height d) = H"
    using ceiling_in_range [of "real_of_int (sint (height box)) * s"] assms(5)
    by (simp add: d_def H_def exactly_scaled_def sint_word_of_int_s32 del: of_int_sint)
  have bounds:
    "real_of_int X \<le> real_of_int (sint (x box)) * s"
    "real_of_int (sint (x box)) * s < real_of_int X + 1"
    "real_of_int Y \<le> real_of_int (sint (y box)) * s"
    "real_of_int (sint (y box)) * s < real_of_int Y + 1"
    "real_of_int (sint (width box)) * s \<le> real_of_int W"
    "real_of_int (sint (height box)) * s \<le> real_of_int H"
    unfolding X_def Y_def W_def H_def by linarith+
  have "(real_of_int (sint (x box)) + real_of_int (sint (width box))) * s - 1
          < real_of_int (X + W)"
    using bounds by (simp add: distrib_right)
  moreover have "(real_of_int (sint (y box)) + real_of_int (sint (height box))) * s - 1
          < real_of_int (Y + H)"
    using bounds by (simp add: distrib_right)
  ultimately show ?thesis
    using dam bounds unfolding sX [symmetric] sY [symmetric] sW [symmetric] sH [symmetric]
    by blast
qed

theorem damage_box_rounds_outward_witness:
  "scale (example_framebuffer\<lparr>scale := Finite (3/2)\<rparr>) = Finite (3/2) \<and>
   exactly_scaled (3/2) 1 \<and> exactly_scaled (3/2) 2 \<and>
   (\<exists>d. damage_box_from_geometry_box (example_framebuffer\<lparr>scale := Finite (3/2)\<rparr>)
          \<lparr>x = 1, y = 1, width = 2, height = 2\<rparr> = Some d \<and>
        real_of_int (sint (x d)) \<le> 1 * (3/2) \<and> 2 * (3/2) \<le> real_of_int (sint (width d)))"
proof -
  have e: "exactly_scaled (3/2) 1" "exactly_scaled (3/2) 2"
    using exactly_scaled_halves [of 1 3] exactly_scaled_halves [of 2 3] by simp_all
  from e damage_box_rounds_outward
    [of "example_framebuffer\<lparr>scale := Finite (3/2)\<rparr>" "3/2"
        "\<lparr>x = 1, y = 1, width = 2, height = 2\<rparr>"]
  show ?thesis by auto
qed

text \<open>
  The claim as stated fails.  At scale 1.5 the box \<open>(1, 1, 2, 2)\<close> becomes
  \<open>(1, 1, 3, 3)\<close>, whose far edge 4 lies before the scaled far edge 4.5.  And the
  product itself is rounded: at the scale \<open>5452595 / 4194304\<close> (the single-precision
  value of 1.3) the coordinate 10 becomes 13, beyond the scaled value 12.9999995.
\<close>

theorem damage_box_cover_counterexample:
  "damage_box_from_geometry_box (example_framebuffer\<lparr>scale := Finite (3/2)\<rparr>)
     \<lparr>x = 1, y = 1, width = 2, height = 2\<rparr> = Some \<lparr>x = 1, y = 1, width = 3, height = 3\<rparr> \<and>
   \<not> ((real_of_int (sint (1 :: s32)) + real_of_int (sint (2 :: s32))) * (3/2)
        \<le> real_of_int (sint (1 :: s32) + sint (3 :: s32))) \<and>
   damage_box_from_geometry_box (example_framebuffer\<lparr>scale := Finite (5452595 / 4194304)\<rparr>)
     \<lparr>x = 10, y = 0, width = 0, height = 0\<rparr> = Some \<lparr>x = 13, y = 0, width = 0, height = 0\<rparr> \<and>
   \<not> (real_of_int (sint (13 :: s32)) \<le> real_of_int (sint (10 :: s32)) * (5452595 / 4194304))"
proof -
  have e: "exactly_scaled (3/2) 1" "exactly_scaled (3/2) 2"
    using exactly_scaled_halves [of 1 3] exactly_scaled_halves [of 2 3] by simp_all
  have f1: "\<lfloor>3 / 2 :: real\<rfloor> = 1" and c3: "\<lceil>3 / 2 :: real\<rceil> = 2"
    by linarith+
  have a: "damage_box_from_geometry_box (example_framebuffer\<lparr>scale := Finite (3/2)\<rparr>)
     \<lparr>x = 1, y = 1, width = 2, height = 2\<rparr> = Some \<lparr>x = 1, y = 1, width = 3, height = 3\<rparr>"
    using damage_box_exact [of "example_framebuffer\<lparr>scale := Finite (3/2)\<rparr>" "3/2"
        "\<lparr>x = 1, y = 1, width = 2, height = 2\<rparr>"] e f1
    by simp
  have b: "damage_box_from_geometry_box (example_framebuffer\<lparr>scale := Finite (5452595 / 4194304)\<rparr>)
     \<lparr>x = 10, y = 0, width = 0, height = 0\<rparr> = Some \<lparr>x = 13, y = 0, width = 0, height = 0\<rparr>"
    by code_simp
  from a b show ?thesis by simp
qed

text \<open>
  C6, as amended: on a target without a non-standard transform, with the transform
  \<open>WL_OUTPUT_TRANSFORM_NORMAL\<close> and scale 1, \<open>framebuffer_box_from_geometry_box\<close>
  returns the box unchanged (and logs nothing) for every box whose four coordinates
  have a magnitude of at most \<open>2 ^ 24\<close>, the integers that single precision
  represents without gaps.
\<close>

theorem framebuffer_box_identity:
  assumes "\<not> has_nonstandard_transform fbuf"
    and "wl_transform fbuf = WL_OUTPUT_TRANSFORM_NORMAL"
    and "scale fbuf = Finite 1"
    and "\<bar>sint (x box)\<bar> \<le> 2 ^ 24" "\<bar>sint (y box)\<bar> \<le> 2 ^ 24"
    and "\<bar>sint (width box)\<bar> \<le> 2 ^ 24" "\<bar>sint (height box)\<bar> \<le> 2 ^ 24"
  shows "framebuffer_box_from_geometry_box fbuf box = Some ([], box)"
proof -
  have "damage_box_from_geometry_box fbuf box =
          Some (box\<lparr>x := word_of_int \<lfloor>real_of_int (sint (x box)) * 1\<rfloor>,
                    y := word_of_int \<lfloor>real_of_int (sint (y box)) * 1\<rfloor>,
                    width := word_of_int \<lceil>real_of_int (sint (width box)) * 1\<rceil>,
                    height := word_of_int \<lceil>real_of_int (sint (height box)) * 1\<rceil>\<rparr>)"
    using assms(3-7) by (intro damage_box_exact exactly_scaled_one)
  moreover have "box\<lparr>x := word_of_int (sint (x box)), y := word_of_int (sint (y box)),
                     width := word_of_int (sint (width box)),
                     height := word_of_int (sint (height box))\<rparr> = box"
    by simp
  ultimately have "damage_box_from_geometry_box fbuf box = Some box"
    by (simp del: of_int_sint)
  then show ?thesis
    using assms(1,2)
    by (simp add: framebuffer_box_from_geometry_box_def framebuffer_box_from_damage_box_def
        wlr_output_transform_invert_def wlr_box_transform_def
        WL_OUTPUT_TRANSFORM_NORMAL_def WL_OUTPUT_TRANSFORM_90_def)
qed

theorem framebuffer_box_identity_witness:
  "\<not> has_nonstandard_transform example_framebuffer \<and>
   wl_transform example_framebuffer = WL_OUTPUT_TRANSFORM_NORMAL \<and>
   scale example_framebuffer = Finite 1 \<and>
   \<bar>sint (5 :: s32)\<bar> \<le> 2 ^ 24 \<and> \<bar>sint (6 :: s32)\<bar> \<le> 2 ^ 24 \<and>
   \<bar>sint (7 :: s32)\<bar> \<le> 2 ^ 24 \<and> \<bar>sint (8 :: s32)\<bar> \<le> 2 ^ 24 \<and>
   framebuffer_box_from_geometry_box example_framebuffer \<lparr>x = 5, y = 6, width = 7, height = 8\<rparr>
     = Some ([], \<lparr>x = 5, y = 6, width = 7, height = 8\<rparr>)"
  using framebuffer_box_identity
    [of example_framebuffer "\<lparr>x = 5, y = 6, width = 7, height = 8\<rparr>"]
  by (simp add: example_framebuffer_def)

text \<open>
  The claim as stated fails: the coordinate \<open>16777217 = 2 ^ 24 + 1\<close> is not a
  single-precision value and comes back as \<open>16777216\<close>.
\<close>

theorem framebuffer_box_identity_counterexample:
  "\<not> has_nonstandard_transform example_framebuffer \<and>
   wl_transform example_framebuffer = WL_OUTPUT_TRANSFORM_NORMAL \<and>
   scale example_framebuffer = Finite 1 \<and>
   framebuffer_box_from_geometry_box example_framebuffer
     \<lparr>x = 16777217, y = 0, width = 0, height = 0\<rparr>
     = Some ([], \<lparr>x = 16777216, y = 0, width = 0, height = 0\<rparr>) \<and>
   \<lparr>x = 16777216, y = 0, width = 0, height = 0\<rparr>
     \<noteq> \<lparr>x = 16777217 :: s32, y = 0 :: s32, width = 0 :: s32, height = 0 :: s32\<rparr>"
proof -
  have "framebuffer_box_from_geometry_box example_framebuffer
     \<lparr>x = 16777217, y = 0, width = 0, height = 0\<rparr>
     = Some ([], \<lparr>x = 16777216, y = 0, width = 0, height = 0\<rparr>)"
    by code_simp
  then show ?thesis by (simp add: example_framebuffer_def)
qed

section \<open>Texture view\<close>

text \<open>
  C9: for an imported texture (one that passes the assertion) the constructor yields a
  view whose class is EXTERNAL exactly when the reported target is not
  \<open>GL_TEXTURE_2D\<close>, and otherwise RGBA when the source has an alpha channel and RGBX
  when it has none; the view's \<open>invert_y\<close> is the negation of the source's
  \<open>inverted_y\<close>.
\<close>

theorem texture_t_classification:
  assumes "wlr_texture_is_gles2 texture"
  shows "\<exists>t. texture_t_of_wlr_texture texture = Some t \<and>
           (type t = TEXTURE_TYPE_EXTERNAL \<longleftrightarrow>
              attribs_target (wlr_gles2_texture_get_attribs texture) \<noteq> GL_TEXTURE_2D) \<and>
           (attribs_target (wlr_gles2_texture_get_attribs texture) = GL_TEXTURE_2D \<longrightarrow>
              type t = (if has_alpha (wlr_gles2_texture_get_attribs texture)
                        then TEXTURE_TYPE_RGBA else TEXTURE_TYPE_RGBX)) \<and>
           invert_y t = (\<not> inverted_y (wlr_gles2_texture_get_attribs texture))"
  using assms by (simp add: texture_t_of_wlr_texture_def Let_def)

theorem texture_t_classification_witness:
  "wlr_texture_is_gles2 example_texture \<and>
   (\<exists>t. texture_t_of_wlr_texture example_texture = Some t \<and>
        type t = TEXTURE_TYPE_EXTERNAL \<and> invert_y t = False)"
  using texture_t_classification [of example_texture]
  by (auto simp: example_texture_def GL_TEXTURE_2D_def)

section \<open>Shader program multiplexer\<close>

lemma id_arr_free_resources: "id_arr (fst (free_resources p)) = (\<lambda>_. 0)"
proof
  fix ty
  show "id_arr (fst (free_resources p)) ty = 0"
    by (cases ty) (simp_all add: free_resources_def free_resource_def Let_def split: prod.splits)
qed

lemma id_arr_set_simple: "id_arr (fst (set_simple h ty p)) = (\<lambda>_. 0)(ty := h)"
  using id_arr_free_resources [of p]
  by (cases "free_resources p") (simp add: set_simple_def)

text \<open>
  C5: \<open>use\<close> throws exactly when the slot of the class holds no program (is 0).
  After \<open>set_simple h cls\<close>, for every class \<open>cls\<close> and with \<open>h\<close> a program (a
  non-zero handle), \<open>use cls\<close> returns, having activated \<open>h\<close> and made \<open>cls\<close> the
  active class, while \<open>use\<close> throws for every other class: the slot of \<open>cls\<close> is
  the only one that holds a program.  In particular, after
  \<open>set_simple h TEXTURE_TYPE_RGBA\<close>, \<open>use\<close> returns for RGBA and throws for RGBX and
  for EXTERNAL.
\<close>

theorem use_requires_registered_program:
  "(isl (fst (use ty p)) \<longleftrightarrow> id_arr p ty = 0) \<and>
   (h \<noteq> 0 \<longrightarrow>
      (\<forall>cls other.
         use cls (fst (set_simple h cls p)) =
           (Inr (), (fst (set_simple h cls p))\<lparr>active_program_idx := cls\<rparr>, [GlUseProgram h]) \<and>
         (other \<noteq> cls \<longrightarrow> isl (fst (use other (fst (set_simple h cls p))))) \<and>
         (id_arr (fst (set_simple h cls p)) other \<noteq> 0 \<longleftrightarrow> other = cls)) \<and>
      fst (use TEXTURE_TYPE_RGBA (fst (set_simple h TEXTURE_TYPE_RGBA p))) = Inr () \<and>
      isl (fst (use TEXTURE_TYPE_RGBX (fst (set_simple h TEXTURE_TYPE_RGBA p)))) \<and>
      isl (fst (use TEXTURE_TYPE_EXTERNAL (fst (set_simple h TEXTURE_TYPE_RGBA p)))) \<and>
      (\<forall>cls. id_arr (fst (set_simple h TEXTURE_TYPE_RGBA p)) cls \<noteq> 0 \<longleftrightarrow>
             cls = TEXTURE_TYPE_RGBA))"
  by (simp add: use_def id_arr_set_simple)

theorem use_requires_registered_program_witness:
  "id_arr program_t_new TEXTURE_TYPE_RGBX = 0 \<and>
   isl (fst (use TEXTURE_TYPE_RGBX program_t_new)) \<and>
   (7::u32) \<noteq> 0 \<and>
   fst (use TEXTURE_TYPE_RGBA (fst (set_simple 7 TEXTURE_TYPE_RGBA program_t_new))) = Inr () \<and>
   isl (fst (use TEXTURE_TYPE_RGBX (fst (set_simple 7 TEXTURE_TYPE_RGBA program_t_new)))) \<and>
   isl (fst (use TEXTURE_TYPE_EXTERNAL (fst (set_simple 7 TEXTURE_TYPE_RGBA program_t_new)))) \<and>
   TEXTURE_TYPE_RGBA \<noteq> TEXTURE_TYPE_RGBX \<and>
   fst (use TEXTURE_TYPE_RGBX (fst (set_simple 7 TEXTURE_TYPE_RGBX program_t_new))) = Inr () \<and>
   snd (snd (use TEXTURE_TYPE_RGBX (fst (set_simple 7 TEXTURE_TYPE_RGBX program_t_new))))
     = [GlUseProgram 7] \<and>
   isl (fst (use TEXTURE_TYPE_RGBA (fst (set_simple 7 TEXTURE_TYPE_RGBX program_t_new))))"
  using use_requires_registered_program [of TEXTURE_TYPE_RGBX program_t_new 7]
  by (simp add: program_t_new_def)

text \<open>
  C10: when \<open>use\<close> throws, the multiplexer is as it was before the call (the active
  class, both location caches and both tracking sets included) and no OpenGL call has
  been issued, so no program has been activated.
\<close>

theorem use_failure_is_atomic:
  assumes "use ty p = (Inl e, p', calls)"
  shows "p' = p \<and> calls = [] \<and>
         active_program_idx p' = active_program_idx p \<and>
         uniforms p' = uniforms p \<and> attribs p' = attribs p \<and>
         active_attrs p' = active_attrs p \<and>
         active_attrs_divisors p' = active_attrs_divisors p \<and>
         (\<forall>prog. GlUseProgram prog \<notin> set calls)"
  using assms by (auto simp: use_def split: if_splits)

theorem use_failure_is_atomic_witness:
  "use TEXTURE_TYPE_EXTERNAL program_t_new =
     (Inl (Runtime_error ''program_t has no program for type 2''), program_t_new, []) \<and>
   program_t_new = program_t_new \<and> ([] :: gl_call list) = []"
  using use_failure_is_atomic
    [of TEXTURE_TYPE_EXTERNAL program_t_new
        "Runtime_error ''program_t has no program for type 2''" program_t_new "[]"]
  by (simp add: use_def program_t_new_def to_string_def)

lemma find_attrib_loc_sets:
  assumes "find_attrib_loc gl name p = (loc, p1, c1)"
  shows "active_attrs p1 = active_attrs p \<and>
         active_attrs_divisors p1 = active_attrs_divisors p \<and>
         (\<forall>l. GlEnableVertexAttribArray l \<notin> set c1) \<and>
         (\<forall>l d. GlVertexAttribDivisor l d \<notin> set c1)"
  using assms by (auto simp: find_attrib_loc_def Let_def split: option.splits)

lemma attrib_pointer_sets:
  assumes "attrib_pointer gl attrib sz stride ptr ty p = (p', c)"
  shows "(\<forall>l. GlEnableVertexAttribArray l \<in> set c \<longrightarrow> l \<in> set (active_attrs p')) \<and>
         set (active_attrs p) \<subseteq> set (active_attrs p') \<and>
         active_attrs_divisors p' = active_attrs_divisors p \<and>
         (\<forall>l d. GlVertexAttribDivisor l d \<notin> set c)"
proof -
  obtain loc p1 c1 where f: "find_attrib_loc gl attrib p = (loc, p1, c1)"
    by (cases "find_attrib_loc gl attrib p") auto
  from find_attrib_loc_sets [OF f] assms f show ?thesis
    by (auto simp: attrib_pointer_def set_insort_insert)
qed

lemma attrib_divisor_sets:
  assumes "attrib_divisor gl attrib divisor p = (p', c)"
  shows "(\<forall>l d. GlVertexAttribDivisor l d \<in> set c \<longrightarrow> l \<in> set (active_attrs_divisors p')) \<and>
         set (active_attrs_divisors p) \<subseteq> set (active_attrs_divisors p') \<and>
         active_attrs p' = active_attrs p \<and>
         (\<forall>l. GlEnableVertexAttribArray l \<notin> set c)"
proof -
  obtain loc p1 c1 where f: "find_attrib_loc gl attrib p = (loc, p1, c1)"
    by (cases "find_attrib_loc gl attrib p") auto
  from find_attrib_loc_sets [OF f] assms f show ?thesis
    by (auto simp: attrib_divisor_def set_insort_insert)
qed

lemma attrib_request_sets:
  assumes "attrib_request_action gl req p = (p', c)"
  shows "(\<forall>l. GlEnableVertexAttribArray l \<in> set c \<longrightarrow> l \<in> set (active_attrs p')) \<and>
         (\<forall>l d. GlVertexAttribDivisor l d \<in> set c \<longrightarrow> l \<in> set (active_attrs_divisors p')) \<and>
         set (active_attrs p) \<subseteq> set (active_attrs p') \<and>
         set (active_attrs_divisors p) \<subseteq> set (active_attrs_divisors p')"
proof (cases req)
  case (Attrib_pointer attrib sz stride ptr ty)
  with assms have "attrib_pointer gl attrib sz stride ptr ty p = (p', c)" by simp
  from attrib_pointer_sets [OF this] show ?thesis by auto
next
  case (Attrib_divisor attrib divisor)
  with assms have "attrib_divisor gl attrib divisor p = (p', c)" by simp
  from attrib_divisor_sets [OF this] show ?thesis by auto
qed

lemma attrib_requests_tracked:
  assumes "run_actions (map (attrib_request_action gl) reqs) p = (p', c)"
  shows "(\<forall>l. GlEnableVertexAttribArray l \<in> set c \<longrightarrow> l \<in> set (active_attrs p')) \<and>
         (\<forall>l d. GlVertexAttribDivisor l d \<in> set c \<longrightarrow> l \<in> set (active_attrs_divisors p')) \<and>
         set (active_attrs p) \<subseteq> set (active_attrs p') \<and>
         set (active_attrs_divisors p) \<subseteq> set (active_attrs_divisors p')"
  using assms
proof (induction reqs arbitrary: p p' c)
  case Nil
  then show ?case by simp
next
  case (Cons req reqs)
  obtain p1 c1 where s1: "attrib_request_action gl req p = (p1, c1)"
    by (cases "attrib_request_action gl req p") auto
  obtain p2 c2 where s2: "run_actions (map (attrib_request_action gl) reqs) p1 = (p2, c2)"
    by (cases "run_actions (map (attrib_request_action gl) reqs) p1") auto
  from Cons.prems s1 s2 have eq: "p' = p2" "c = c1 @ c2" by simp_all
  note h1 = attrib_request_sets [OF s1]
  note h2 = Cons.IH [OF s2]
  from h1 h2 show ?case unfolding eq by (auto simp del: attrib_request_action.simps)
qed

text \<open>
  C8: run any sequence of \<open>attrib_pointer\<close> and \<open>attrib_divisor\<close> calls, then
  \<open>deactivate\<close>.  Every location for which the sequence called
  \<open>glEnableVertexAttribArray\<close> is disabled by \<open>deactivate\<close>, every location whose
  divisor the sequence set gets the divisor 0, both tracking sets are empty afterwards,
  and the last call of \<open>deactivate\<close> is \<open>glUseProgram(0)\<close>.
\<close>

theorem deactivate_undoes_attrib_requests:
  "(\<forall>loc. GlEnableVertexAttribArray loc
            \<in> set (snd (run_actions (map (attrib_request_action gl) reqs) p)) \<longrightarrow>
          GlDisableVertexAttribArray loc
            \<in> set (snd (deactivate (fst (run_actions (map (attrib_request_action gl) reqs) p))))) \<and>
   (\<forall>loc d. GlVertexAttribDivisor loc d
            \<in> set (snd (run_actions (map (attrib_request_action gl) reqs) p)) \<longrightarrow>
          GlVertexAttribDivisor loc 0
            \<in> set (snd (deactivate (fst (run_actions (map (attrib_request_action gl) reqs) p))))) \<and>
   active_attrs (fst (deactivate (fst (run_actions (map (attrib_request_action gl) reqs) p)))) = [] \<and>
   active_attrs_divisors
     (fst (deactivate (fst (run_actions (map (attrib_request_action gl) reqs) p)))) = [] \<and>
   last (snd (deactivate (fst (run_actions (map (attrib_request_action gl) reqs) p))))
     = GlUseProgram 0"
proof -
  obtain p1 c1 where r: "run_actions (map (attrib_request_action gl) reqs) p = (p1, c1)"
    by (cases "run_actions (map (attrib_request_action gl) reqs) p") auto
  note t = attrib_requests_tracked [OF r]
  have d: "deactivate p1 =
             (p1\<lparr>active_attrs_divisors := [], active_attrs := []\<rparr>,
              map (\<lambda>loc. GlVertexAttribDivisor loc 0) (active_attrs_divisors p1) @
              map GlDisableVertexAttribArray (active_attrs p1) @ [GlUseProgram 0])"
    by (simp add: deactivate_def)
  from t show ?thesis by (auto simp: r d)
qed

theorem deactivate_undoes_attrib_requests_witness:
  "GlEnableVertexAttribArray 0
     \<in> set (snd (run_actions (map (attrib_request_action example_driver) example_requests)
                   program_t_new)) \<and>
   GlDisableVertexAttribArray 0
     \<in> set (snd (deactivate (fst (run_actions
                   (map (attrib_request_action example_driver) example_requests)
                   program_t_new)))) \<and>
   GlVertexAttribDivisor 1 1
     \<in> set (snd (run_actions (map (attrib_request_action example_driver) example_requests)
                   program_t_new)) \<and>
   GlVertexAttribDivisor 1 0
     \<in> set (snd (deactivate (fst (run_actions
                   (map (attrib_request_action example_driver) example_requests)
                   program_t_new))))"
proof -
  have e: "GlEnableVertexAttribArray 0
             \<in> set (snd (run_actions (map (attrib_request_action example_driver) example_requests)
                           program_t_new))"
    and v: "GlVertexAttribDivisor 1 1
             \<in> set (snd (run_actions (map (attrib_request_action example_driver) example_requests)
                           program_t_new))"
    by (simp_all add: example_requests_def example_driver_def program_t_new_def
        attrib_pointer_def attrib_divisor_def find_attrib_loc_def Let_def)
  from e v deactivate_undoes_attrib_requests [of example_driver example_requests program_t_new]
  show ?thesis by blast
qed

section \<open>Render target (base)\<close>

text \<open>
  C4, as amended: when the driver reports the framebuffer complete, the first
  \<open>allocate\<close> on a fresh target returns true; if moreover the names the driver
  generated are not the sentinel \<open>-1\<close>, a second \<open>allocate\<close> with the same size returns
  false; and on a target that has a framebuffer other than the default one (\<open>fb\<close> is
  neither \<open>0\<close> nor \<open>-1\<close>), an \<open>allocate\<close> whose width or height differs from the
  viewport size returns true when the framebuffer is complete, re-specifies the texture
  storage with \<open>glTexImage2D\<close> and records the new size.
\<close>

theorem allocate_result:
  "(glCheckFramebufferStatus gl1 = GL_FRAMEBUFFER_COMPLETE \<longrightarrow>
      fst (allocate gl1 w h framebuffer_base_t_new) = True \<and>
      (glGenFramebuffers gl1 \<noteq> -1 \<and> glGenTextures gl1 \<noteq> -1 \<longrightarrow>
         fst (allocate gl2 w h (fst (snd (allocate gl1 w h framebuffer_base_t_new)))) = False)) \<and>
   (glCheckFramebufferStatus gl3 = GL_FRAMEBUFFER_COMPLETE \<and> fb t \<noteq> 0 \<and> fb t \<noteq> -1 \<and>
    (w3 \<noteq> viewport_width t \<or> h3 \<noteq> viewport_height t) \<longrightarrow>
      fst (allocate gl3 w3 h3 t) = True \<and>
      GlTexImage2D GL_TEXTURE_2D 0 GL_RGBA w3 h3 0 GL_RGBA GL_UNSIGNED_BYTE
        \<in> set (fst (snd (snd (allocate gl3 w3 h3 t)))) \<and>
      viewport_width (fst (snd (allocate gl3 w3 h3 t))) = w3 \<and>
      viewport_height (fst (snd (allocate gl3 w3 h3 t))) = h3)"
  by (auto simp: allocate_def framebuffer_base_t_new_def Let_def)

theorem allocate_result_witness:
  "glCheckFramebufferStatus example_driver = GL_FRAMEBUFFER_COMPLETE \<and>
   glGenFramebuffers example_driver \<noteq> -1 \<and> glGenTextures example_driver \<noteq> -1 \<and>
   fst (allocate example_driver 800 600 framebuffer_base_t_new) = True \<and>
   fst (allocate example_driver 800 600
          (fst (snd (allocate example_driver 800 600 framebuffer_base_t_new)))) = False \<and>
   fb example_target \<noteq> 0 \<and> fb example_target \<noteq> -1 \<and>
   (1024::s32) \<noteq> viewport_width example_target \<and>
   fst (allocate example_driver 1024 600 example_target) = True"
  using allocate_result
    [of example_driver 800 600 example_driver example_driver example_target 1024 600]
  by (simp add: example_driver_def example_target_def)

text \<open>
  The claim as stated fails: with positive sizes, the first \<open>allocate\<close> on a fresh
  target returns false when the driver reports the framebuffer incomplete
  (\<open>0x8CD6\<close> is \<open>GL_FRAMEBUFFER_INCOMPLETE_ATTACHMENT\<close>), and an \<open>allocate\<close> with a
  new size on a target of the default framebuffer (\<open>fb = 0\<close>) returns false.
\<close>

theorem allocate_counterexample:
  "fst (allocate (example_driver\<lparr>glCheckFramebufferStatus := 0x8CD6\<rparr>) 800 600
          framebuffer_base_t_new) = False \<and>
   (1024::s32) \<noteq> viewport_width \<lparr>tex = 0, fb = 0, viewport_width = 800, viewport_height = 600\<rparr> \<and>
   fst (allocate example_driver 1024 768
          \<lparr>tex = 0, fb = 0, viewport_width = 800, viewport_height = 600\<rparr>) = False"
  by (simp add: allocate_def framebuffer_base_t_new_def example_driver_def Let_def
      GL_FRAMEBUFFER_COMPLETE_def)

end
